theory Spec2Isabelle
  imports Complex_Main
begin

section \<open>Text model\<close>

text \<open>
  A Python \<open>str\<close> is a sequence of code points. A text is modelled as a \<open>string\<close> in
  which every \<open>char\<close> stands for one code point in the range 0..255 (so \<open>CHR 0xF3\<close> is
  the single letter o-acute, not a byte of an encoding). Python ints are modelled by
  \<open>int\<close> or \<open>nat\<close>. A Python float is modelled by the real number it denotes; the
  confidence values of the scraper are computed on exact reals, the scores of the
  analyzer with the rounding of double precision (section Floating point).
\<close>

definition py_isspace :: "char \<Rightarrow> bool" where
  \<comment> \<open>\<open>str.isspace\<close> and the class \<open>\s\<close> of \<open>re\<close> on a str pattern, below code point 256\<close>
  "py_isspace c = (let n = (of_char c :: nat) in
     (9 \<le> n \<and> n \<le> 13) \<or> (28 \<le> n \<and> n \<le> 32) \<or> n = 133 \<or> n = 160)"

definition py_isdigit :: "char \<Rightarrow> bool" where
  \<comment> \<open>the class \<open>\d\<close> below code point 256\<close>
  "py_isdigit c = (let n = (of_char c :: nat) in 48 \<le> n \<and> n \<le> 57)"

definition py_lower :: "char \<Rightarrow> char" where
  \<comment> \<open>\<open>str.lower\<close> on one code point below 256\<close>
  "py_lower c = (let n = (of_char c :: nat) in
     if (65 \<le> n \<and> n \<le> 90) \<or> (192 \<le> n \<and> n \<le> 222 \<and> n \<noteq> 215)
     then char_of (n + 32) else c)"

definition lower :: "string \<Rightarrow> string" where
  "lower s = map py_lower s"

definition strip :: "string \<Rightarrow> string" where
  \<comment> \<open>\<open>str.strip()\<close> without argument\<close>
  "strip s = rev (dropWhile py_isspace (rev (dropWhile py_isspace s)))"

fun contains :: "string \<Rightarrow> string \<Rightarrow> bool" where
  \<comment> \<open>\<open>k in t\<close> on strings\<close>
  "contains k [] = (k = [])"
| "contains k (c # cs) = (if take (length k) (c # cs) = k then True else contains k cs)"


section \<open>Regular expressions as the patterns use them\<close>

text \<open>
  The patterns of \<open>utils.py\<close> use literals, character classes, greedy repetition of one
  character class, the greedy option, alternation, one capture group and the anchor
  \<open>$\<close>. \<open>rx_match r s g\<close> lists the ways \<open>r\<close> matches a prefix of \<open>s\<close>, in the order in
  which the backtracking matcher of \<open>re\<close> tries them; each way is the unread rest of the
  text and the content of the capture group.
\<close>

datatype rx =
    Atom "char \<Rightarrow> bool"
  | Eps
  | RSeq rx rx
  | RAlt rx rx
  | ROpt rx
  | RStar "char \<Rightarrow> bool"
  | Grp rx
  | Eol

fun star_match :: "(char \<Rightarrow> bool) \<Rightarrow> string \<Rightarrow> string list" where
  "star_match p [] = [[]]"
| "star_match p (c # cs) = (if p c then star_match p cs @ [c # cs] else [c # cs])"

fun rx_match :: "rx \<Rightarrow> string \<Rightarrow> string option \<Rightarrow> (string \<times> string option) list" where
  "rx_match (Atom p) s g = (case s of [] \<Rightarrow> [] | c # cs \<Rightarrow> if p c then [(cs, g)] else [])"
| "rx_match Eps s g = [(s, g)]"
| "rx_match (RSeq a b) s g = concat (map (\<lambda>(s', g'). rx_match b s' g') (rx_match a s g))"
| "rx_match (RAlt a b) s g = rx_match a s g @ rx_match b s g"
| "rx_match (ROpt a) s g = rx_match a s g @ [(s, g)]"
| "rx_match (RStar p) s g = map (\<lambda>s'. (s', g)) (star_match p s)"
| "rx_match (Grp a) s g =
     map (\<lambda>(s', _). (s', Some (take (length s - length s') s))) (rx_match a s g)"
| "rx_match Eol s g = (if s = [] \<or> s = [CHR 0x0A] then [(s, g)] else [])"

fun rx_search :: "rx \<Rightarrow> string \<Rightarrow> string option option" where
  \<comment> \<open>\<open>re.search\<close>: the leftmost start that matches, with the first way the matcher finds;
      the result is the capture group of that match\<close>
  "rx_search r [] = (case rx_match r [] None of [] \<Rightarrow> None | (s', g) # _ \<Rightarrow> Some g)"
| "rx_search r (c # cs) =
     (case rx_match r (c # cs) None of [] \<Rightarrow> rx_search r cs | (s', g) # _ \<Rightarrow> Some g)"

definition rx_found :: "rx \<Rightarrow> string \<Rightarrow> bool" where
  \<comment> \<open>the truth value of \<open>re.search(pattern, text, re.IGNORECASE)\<close>\<close>
  "rx_found r s = (rx_search r s \<noteq> None)"

definition ichar :: "char \<Rightarrow> char \<Rightarrow> bool" where
  \<comment> \<open>a literal character under \<open>re.IGNORECASE\<close>\<close>
  "ichar c x = (py_lower x = py_lower c)"

fun lit_i :: "string \<Rightarrow> rx" where
  "lit_i [] = Eps"
| "lit_i (c # cs) = RSeq (Atom (ichar c)) (lit_i cs)"

fun rseq :: "rx list \<Rightarrow> rx" where
  "rseq [] = Eps"
| "rseq (r # rs) = RSeq r (rseq rs)"

definition rplus :: "(char \<Rightarrow> bool) \<Rightarrow> rx" where
  "rplus p = RSeq (Atom p) (RStar p)"


section \<open>Boolean policy detection (utils.py)\<close>

definition KEYWORDS_NEGATIVE :: "rx list" where
  "KEYWORDS_NEGATIVE =
    [ rseq [lit_i ''no'', rplus py_isspace, ROpt (rseq [lit_i ''se'', rplus py_isspace]), lit_i ''permite''],
      rseq [lit_i ''no'', rplus py_isspace, ROpt (rseq [lit_i ''es'', rplus py_isspace]), lit_i ''posible''],
      rseq [lit_i ''no'', rplus py_isspace, ROpt (rseq [lit_i ''se'', rplus py_isspace]), lit_i ''autoriza''],
      lit_i ''imposible'',
      lit_i ''prohibido'',
      rseq [lit_i ''no'', rplus py_isspace, ROpt (rseq [lit_i ''se'', rplus py_isspace]), lit_i ''puede''],
      rseq [lit_i ''no'', rplus py_isspace, ROpt (rseq [lit_i ''es'', rplus py_isspace]), lit_i ''permitido''],
      rseq [lit_i ''no'', rplus py_isspace, lit_i ''reembolsable''] ]"

definition KEYWORDS_POSITIVE :: "rx list" where
  "KEYWORDS_POSITIVE =
    [ lit_i ''permite'',
      lit_i ''posible'',
      lit_i ''puede'',
      lit_i ''autorizado'',
      lit_i ''permitido'',
      lit_i ''disponible'',
      rseq [lit_i ''se'', rplus py_isspace, lit_i ''acepta''] ]"

fun count_patterns :: "rx list \<Rightarrow> string \<Rightarrow> nat" where
  \<comment> \<open>the loop \<open>for pattern in ...: if re.search(pattern, text, re.IGNORECASE): n += 1\<close>\<close>
  "count_patterns [] t = 0"
| "count_patterns (p # ps) t = (if rx_found p t then 1 else 0) + count_patterns ps t"

fun count_keywords :: "string list \<Rightarrow> string \<Rightarrow> nat" where
  \<comment> \<open>the loop \<open>for keyword in keywords: if keyword.lower() in text: n += 1\<close>\<close>
  "count_keywords [] t = 0"
| "count_keywords (k # ks) t = (if contains (lower k) t then 1 else 0) + count_keywords ks t"

definition positive_matches :: "string \<Rightarrow> string list option \<Rightarrow> nat" where
  \<comment> \<open>the value of \<open>positive_matches\<close> when the result is determined; \<open>t\<close> is the
      lower-cased, stripped text\<close>
  "positive_matches t keywords =
     count_patterns KEYWORDS_POSITIVE t +
     (case keywords of None \<Rightarrow> 0 | Some ks \<Rightarrow> count_keywords ks t)"

definition negative_matches :: "string \<Rightarrow> nat" where
  "negative_matches t = count_patterns KEYWORDS_NEGATIVE t"

definition policy_decision :: "nat \<Rightarrow> nat \<Rightarrow> bool option \<times> real" where
  \<comment> \<open>the final \<open>if/elif/else\<close> of \<open>detect_boolean_policy\<close>, on the two counts\<close>
  "policy_decision positive negative =
     (if positive > negative
      then (Some True, min (real positive / real (positive + negative + 1)) (9 / 10))
      else if negative > positive
      then (Some False, min (real negative / real (positive + negative + 1)) (9 / 10))
      else (None, 0))"

definition detect_boolean_policy :: "string \<Rightarrow> string list option \<Rightarrow> bool option \<times> real" where
  "detect_boolean_policy text keywords =
     (if text = [] then (None, 0)
      else let t = strip (lower text)
           in policy_decision (positive_matches t keywords) (negative_matches t))"


section \<open>Amount extraction (utils.py)\<close>

definition amount_char :: "char \<Rightarrow> bool" where
  \<comment> \<open>the class \<open>[\d,.]\<close>\<close>
  "amount_char c = (py_isdigit c \<or> c = CHR '','' \<or> c = CHR ''.'')"

definition REGEX_COSTOS_COP :: "rx list" where
  "REGEX_COSTOS_COP =
    [ rseq [lit_i ''$'', RStar py_isspace, Grp (rplus amount_char), RStar py_isspace,
            RAlt (lit_i ''COP'') (lit_i ''pesos'')],
      rseq [Grp (rplus amount_char), RStar py_isspace, lit_i ''pesos'', rplus py_isspace,
            lit_i ''colombianos''],
      rseq [lit_i ''valor'', ROpt (rseq [rplus py_isspace, lit_i ''de'']), rplus py_isspace,
            ROpt (lit_i ''$''), RStar py_isspace, Grp (rplus amount_char)],
      rseq [lit_i ''$'', RStar py_isspace, Grp (rplus amount_char), RAlt (Atom py_isspace) Eol],
      rseq [Grp (rplus amount_char), RStar py_isspace, lit_i ''COP''] ]"

definition REGEX_COSTOS_USD :: "rx list" where
  "REGEX_COSTOS_USD =
    [ rseq [lit_i ''US'', ROpt (lit_i ''D''), RStar py_isspace, ROpt (lit_i ''$''),
            RStar py_isspace, Grp (rplus amount_char)],
      rseq [lit_i ''$'', RStar py_isspace, Grp (rplus amount_char), RStar py_isspace,
            RAlt (lit_i ''USD'')
              (RAlt (lit_i (CHR ''d'' # CHR 0xF3 # ''lares'')) (lit_i ''dolares''))],
      rseq [Grp (rplus amount_char), RStar py_isspace,
            lit_i (CHR ''d'' # CHR 0xF3 # ''lare''), ROpt (lit_i ''s'')] ]"

definition findall_first :: "rx \<Rightarrow> string \<Rightarrow> string option" where
  \<comment> \<open>\<open>matches = re.findall(pattern, text, re.IGNORECASE)\<close> for a pattern with one group:
      \<open>None\<close> when \<open>matches\<close> is empty, else \<open>matches[0]\<close>, the group of the first match\<close>
  "findall_first r s =
     (case rx_search r s of None \<Rightarrow> None | Some None \<Rightarrow> Some [] | Some (Some g) \<Rightarrow> Some g)"

datatype py_error = ValueError

definition replace_char :: "char \<Rightarrow> string \<Rightarrow> string" where
  \<comment> \<open>\<open>s.replace(c, '')\<close>\<close>
  "replace_char c s = filter (\<lambda>x. x \<noteq> c) s"

definition digits_value :: "string \<Rightarrow> int" where
  "digits_value s = foldl (\<lambda>acc c. 10 * acc + (of_char c - 48)) 0 s"

definition py_int :: "string \<Rightarrow> py_error + int" where
  \<comment> \<open>\<open>int(s)\<close> on a string of the characters \<open>[\d,.]\<close> (no sign, blank or underscore
      reaches it): a non-empty string of digits is a number, anything else raises. The
      limit that newer interpreters put on the number of digits is not modelled\<close>
  "py_int s = (if s \<noteq> [] \<and> list_all py_isdigit s then Inr (digits_value s)
               else Inl ValueError)"

definition py_float :: "string \<Rightarrow> py_error + real" where
  \<comment> \<open>\<open>float(s)\<close> on a string of the characters \<open>[\d.]\<close>: digits with at most one point and
      at least one digit; the value is the decimal number the string denotes\<close>
  "py_float s =
     (let a = takeWhile (\<lambda>c. c \<noteq> CHR ''.'') s; b = dropWhile (\<lambda>c. c \<noteq> CHR ''.'') s
      in if b = [] then
           (if a \<noteq> [] \<and> list_all py_isdigit a then Inr (real_of_int (digits_value a))
            else Inl ValueError)
         else
           (if list_all py_isdigit a \<and> list_all py_isdigit (tl b) \<and> (a \<noteq> [] \<or> tl b \<noteq> [])
            then Inr (real_of_int (digits_value a) + real_of_int (digits_value (tl b)) / 10 ^ length (tl b))
            else Inl ValueError))"

fun cop_loop :: "rx list \<Rightarrow> string \<Rightarrow> int option" where
  \<comment> \<open>\<open>for pattern in REGEX_COSTOS_COP: ...\<close>, then \<open>return None\<close>\<close>
  "cop_loop [] t = None"
| "cop_loop (p # ps) t =
     (case findall_first p t of
        None \<Rightarrow> cop_loop ps t
      | Some m \<Rightarrow>
          (case py_int (replace_char (CHR ''.'') (replace_char (CHR '','') m)) of
             Inr v \<Rightarrow> Some v
           | Inl ValueError \<Rightarrow> cop_loop ps t))"

definition extract_cop_amount :: "string \<Rightarrow> int option" where
  "extract_cop_amount text = (if text = [] then None else cop_loop REGEX_COSTOS_COP (strip text))"

fun usd_loop :: "rx list \<Rightarrow> string \<Rightarrow> real option" where
  "usd_loop [] t = None"
| "usd_loop (p # ps) t =
     (case findall_first p t of
        None \<Rightarrow> usd_loop ps t
      | Some m \<Rightarrow>
          (case py_float (replace_char (CHR '','') m) of
             Inr v \<Rightarrow> Some v
           | Inl ValueError \<Rightarrow> usd_loop ps t))"

definition extract_usd_amount :: "string \<Rightarrow> real option" where
  "extract_usd_amount text = (if text = [] then None else usd_loop REGEX_COSTOS_USD (strip text))"

text \<open>
  The extraction as the specification words it: the parse of the first match of one
  pattern, and the first pattern of the list, in order, that has such a parse.
\<close>

definition cop_parse :: "rx \<Rightarrow> string \<Rightarrow> int option" where
  "cop_parse p t =
     (case findall_first p t of
        None \<Rightarrow> None
      | Some m \<Rightarrow>
          (case py_int (replace_char (CHR ''.'') (replace_char (CHR '','') m)) of
             Inr v \<Rightarrow> Some v | Inl e \<Rightarrow> None))"

definition usd_parse :: "rx \<Rightarrow> string \<Rightarrow> real option" where
  "usd_parse p t =
     (case findall_first p t of
        None \<Rightarrow> None
      | Some m \<Rightarrow>
          (case py_float (replace_char (CHR '','') m) of Inr v \<Rightarrow> Some v | Inl e \<Rightarrow> None))"

definition first_parse :: "(rx \<Rightarrow> string \<Rightarrow> 'a option) \<Rightarrow> rx list \<Rightarrow> string \<Rightarrow> 'a option" where
  "first_parse parse ps t =
     (case List.find (\<lambda>p. parse p t \<noteq> None) ps of None \<Rightarrow> None | Some p \<Rightarrow> parse p t)"


section \<open>Rounding\<close>

text \<open>
  \<open>round(x, n)\<close> of Python rounds to the nearest multiple of \<open>10^-n\<close>, a tie going to
  the even neighbour. It is modelled on the exact value of \<open>x\<close>.
\<close>

definition round_half_even :: "real \<Rightarrow> int" where
  \<comment> \<open>the nearest integer, a tie going to the even neighbour\<close>
  "round_half_even x =
     (let f = \<lfloor>x\<rfloor>; d = x - of_int f
      in if d < 1 / 2 then f else if 1 / 2 < d then f + 1 else if even f then f else f + 1)"

definition py_round :: "real \<Rightarrow> nat \<Rightarrow> real" where
  \<comment> \<open>\<open>round(x, ndigits)\<close> on the exact value\<close>
  "py_round x ndigits = of_int (round_half_even (x * 10 ^ ndigits)) / 10 ^ ndigits"


section \<open>Floating point\<close>

text \<open>
  A double is a real number \<open>m * 2^e\<close> with an integer \<open>m\<close> of at most 53 bits. \<open>fl x\<close>
  is the double nearest to \<open>x\<close>, a tie going to the even \<open>m\<close>: the result of one
  arithmetic operation whose exact result is \<open>x\<close>, and the value of a literal. The
  exponent is not bounded: overflow and subnormal numbers do not occur in what the
  analyzer computes from counts below \<open>2^53\<close>, which convert to doubles exactly. At a
  given number \<open>fl\<close> is computed from the power of two below it (lemma \<open>fl_eval\<close>).
\<close>

definition fl_exp :: "real \<Rightarrow> int" where
  \<comment> \<open>the exponent of the last of the 53 bits of \<open>x\<close>\<close>
  "fl_exp x = \<lfloor>log 2 \<bar>x\<bar>\<rfloor> - 52"

definition fl :: "real \<Rightarrow> real" where
  "fl x = (if x = 0 then 0
           else of_int (round_half_even (x / 2 powi fl_exp x)) * 2 powi fl_exp x)"

text \<open>
  \<open>round(x, ndigits)\<close> on a double has two implementations. The built-in one of a Python
  float rounds the exact value of the double to \<open>ndigits\<close> decimals and returns the
  double nearest to that decimal. The one of a numpy scalar multiplies by
  \<open>10^ndigits\<close>, rounds to an integer and divides, each in double precision.
\<close>

datatype round_impl = Builtin | Numpy

definition float_round :: "round_impl \<Rightarrow> real \<Rightarrow> nat \<Rightarrow> real" where
  "float_round impl x ndigits =
     (case impl of
        Builtin \<Rightarrow> fl (of_int (round_half_even (x * 10 ^ ndigits)) / 10 ^ ndigits)
      | Numpy \<Rightarrow> fl (of_int (round_half_even (fl (x * 10 ^ ndigits))) / 10 ^ ndigits))"


section \<open>Policy records (models.py)\<close>

record AirlinePolicy =
  airline_name :: string
  airline_code :: string
  allows_full_name_change :: "bool option"
  allows_name_correction :: "bool option"
  cost_name_change_domestic_cop :: "int option"
  cost_name_change_intl_cop :: "int option"
  cost_name_change_usd :: "real option"
  allows_transfer_to_third_party :: "bool option"
  transfer_process_description :: "string option"
  allows_cancellation :: "bool option"
  cancellation_cost_cop :: "int option"
  refund_percentage :: "int option"
  time_restrictions :: "string option"
  fare_type_differences :: "string option"
  max_change_deadline :: "string option"
  terms_url :: "string option"
  support_phone :: "string option"
  support_email :: "string option"
  required_documentation :: "string option"
  notable_exceptions :: "string option"
  source_url :: "string option"
  scraped_at :: nat
  raw_html_hash :: "string option"
  requires_manual_review :: bool
  manual_review_notes :: "string option"
  confidence_score :: real

definition new_policy :: "string \<Rightarrow> string \<Rightarrow> nat \<Rightarrow> AirlinePolicy" where
  \<comment> \<open>\<open>AirlinePolicy(airline_name=..., airline_code=...)\<close> with the defaults of the
      dataclass; the third argument is the clock reading that \<open>scraped_at\<close> defaults to\<close>
  "new_policy name code now =
     \<lparr> airline_name = name, airline_code = code,
       allows_full_name_change = None, allows_name_correction = None,
       cost_name_change_domestic_cop = None, cost_name_change_intl_cop = None,
       cost_name_change_usd = None,
       allows_transfer_to_third_party = None, transfer_process_description = None,
       allows_cancellation = None, cancellation_cost_cop = None, refund_percentage = None,
       time_restrictions = None, fare_type_differences = None, max_change_deadline = None,
       terms_url = None, support_phone = None, support_email = None,
       required_documentation = None, notable_exceptions = None,
       source_url = None, scraped_at = now, raw_html_hash = None,
       requires_manual_review = False, manual_review_notes = None, confidence_score = 0 \<rparr>"

definition get_missing_fields :: "AirlinePolicy \<Rightarrow> string list" where
  "get_missing_fields p =
     (if allows_full_name_change p = None then [''allows_full_name_change''] else []) @
     (if allows_name_correction p = None then [''allows_name_correction''] else []) @
     (if allows_transfer_to_third_party p = None then [''allows_transfer_to_third_party''] else []) @
     (if cost_name_change_domestic_cop p = None then [''cost_name_change_domestic_cop''] else [])"


section \<open>Field-coverage confidence score (base_scraper.py)\<close>

definition critical_fields :: "AirlinePolicy \<Rightarrow> bool list" where
  \<comment> \<open>\<open>getattr(policy, field) is not None\<close> for the four critical fields, in order\<close>
  "critical_fields p =
     [ allows_full_name_change p \<noteq> None,
       allows_name_correction p \<noteq> None,
       allows_transfer_to_third_party p \<noteq> None,
       cost_name_change_domestic_cop p \<noteq> None ]"

definition important_fields :: "AirlinePolicy \<Rightarrow> bool list" where
  "important_fields p =
     [ allows_cancellation p \<noteq> None,
       cancellation_cost_cop p \<noteq> None,
       refund_percentage p \<noteq> None,
       time_restrictions p \<noteq> None ]"

fun count_fields :: "nat \<Rightarrow> bool list \<Rightarrow> nat \<times> nat \<Rightarrow> nat \<times> nat" where
  \<comment> \<open>one of the two loops: the pair is \<open>(total_fields, filled_fields)\<close>, \<open>w\<close> the weight\<close>
  "count_fields w [] acc = acc"
| "count_fields w (b # bs) (total_fields, filled_fields) =
     count_fields w bs (total_fields + w, if b then filled_fields + w else filled_fields)"

definition calculate_confidence_score :: "AirlinePolicy \<Rightarrow> real" where
  "calculate_confidence_score p =
     (let (total_fields, filled_fields) =
            count_fields 1 (important_fields p) (count_fields 2 (critical_fields p) (0, 0));
          score = (if total_fields > 0 then real filled_fields / real total_fields else 0)
      in py_round score 2)"


text \<open>
  The weight of the populated fields as the specification words it: a critical field
  counts double, an important field counts single.
\<close>

definition filled_weight :: "AirlinePolicy \<Rightarrow> nat" where
  "filled_weight p =
     2 * length (filter id (critical_fields p)) + length (filter id (important_fields p))"


section \<open>Viability score (analyzer.py, config.py)\<close>

definition max_acceptable_cost_cop :: int where
  \<comment> \<open>\<open>VIABILITY_THRESHOLDS['max_acceptable_cost_cop']\<close>\<close>
  "max_acceptable_cost_cop = 200000"

definition market_coverage_minimum :: real where
  "market_coverage_minimum = 40"

definition market_coverage_ideal :: real where
  "market_coverage_ideal = 60"

definition allows_transfer :: "AirlinePolicy \<Rightarrow> bool" where
  "allows_transfer p = (allows_transfer_to_third_party p = Some True)"

definition reasonable_cost :: "AirlinePolicy \<Rightarrow> bool" where
  \<comment> \<open>a row of \<open>df[df['cost_name_change_domestic_cop'] <= max]\<close>: a missing cost compares false\<close>
  "reasonable_cost p =
     (case cost_name_change_domestic_cop p of None \<Rightarrow> False
      | Some c \<Rightarrow> c \<le> max_acceptable_cost_cop)"

definition overall_score :: "AirlinePolicy list \<Rightarrow> real" where
  \<comment> \<open>the local \<open>overall_score\<close> of a non-empty frame: every division, product, difference
      and sum is one operation on doubles, \<open>0.5\<close>, \<open>0.3\<close> and \<open>0.2\<close> are double literals\<close>
  "overall_score df =
     (let total = length df;
          transfer_score =
            fl (fl (real (length (filter allows_transfer df)) / real total) * fl (5 / 10));
          cost_score =
            fl (fl (real (length (filter reasonable_cost df)) / real total) * fl (3 / 10));
          data_score =
            fl (fl (1 - fl (real (length (filter requires_manual_review df)) / real total))
                * fl (2 / 10))
      in fl (fl (transfer_score + cost_score) + data_score))"

definition calculate_overall_viability_score :: "round_impl \<Rightarrow> AirlinePolicy list \<Rightarrow> real" where
  \<comment> \<open>\<open>impl\<close>: the \<open>round\<close> that the interpreter dispatches to for the sum, which pandas
      makes a numpy scalar; older versions of numpy leave it to the built-in one\<close>
  "calculate_overall_viability_score impl df =
     (if df = [] then 0 else float_round impl (overall_score df) 2)"

text \<open>The score as the specification words it: fractions of the airlines, weighted.\<close>

definition fraction :: "('a \<Rightarrow> bool) \<Rightarrow> 'a list \<Rightarrow> real" where
  "fraction P xs = real (length (filter P xs)) / real (length xs)"

definition weighted_viability :: "AirlinePolicy list \<Rightarrow> real" where
  "weighted_viability df =
     5 / 10 * fraction allows_transfer df
     + 3 / 10 * fraction reasonable_cost df
     + 2 / 10 * (1 - fraction requires_manual_review df)"

definition three_airlines :: "AirlinePolicy list" where
  \<comment> \<open>three records, one of which allows the transfer; no cost known, none flagged\<close>
  "three_airlines =
     [ (new_policy ''Avianca'' ''AV'' 0)\<lparr>allows_transfer_to_third_party := Some True\<rparr>,
       new_policy ''LATAM'' ''LA'' 0,
       new_policy ''Wingo'' ''P5'' 0 ]"

definition four_airlines :: "AirlinePolicy list" where
  \<comment> \<open>four records, three of which allow the transfer; the weighted sum is 0.575\<close>
  "four_airlines =
     [ (new_policy ''Avianca'' ''AV'' 0)\<lparr>allows_transfer_to_third_party := Some True\<rparr>,
       (new_policy ''LATAM'' ''LA'' 0)\<lparr>allows_transfer_to_third_party := Some True\<rparr>,
       (new_policy ''Wingo'' ''P5'' 0)\<lparr>allows_transfer_to_third_party := Some True\<rparr>,
       new_policy ''Satena'' ''9R'' 0 ]"


section \<open>Validation (utils.py, base_scraper.py)\<close>

definition validate_cop_amount :: "int option \<Rightarrow> bool" where
  "validate_cop_amount amount =
     (case amount of None \<Rightarrow> True | Some a \<Rightarrow> 0 \<le> a \<and> a \<le> 10000000)"

definition validate_usd_amount :: "real option \<Rightarrow> bool" where
  "validate_usd_amount amount =
     (case amount of None \<Rightarrow> True | Some a \<Rightarrow> 0 \<le> a \<and> a \<le> 5000)"

definition validate_percentage :: "int option \<Rightarrow> bool" where
  "validate_percentage percentage =
     (case percentage of None \<Rightarrow> True | Some a \<Rightarrow> 0 \<le> a \<and> a \<le> 100)"

fun lit :: "string \<Rightarrow> rx" where
  \<comment> \<open>a literal without \<open>re.IGNORECASE\<close>\<close>
  "lit [] = Eps"
| "lit (c # cs) = RSeq (Atom (\<lambda>x. x = c)) (lit cs)"

definition url_char :: "char \<Rightarrow> bool" where
  \<comment> \<open>the class \<open>[^\s<>"{}|\\^`\[\]]\<close>\<close>
  "url_char c =
     (\<not> py_isspace c \<and>
      c \<notin> set [CHR 0x3C, CHR 0x3E, CHR 0x22, CHR 0x7B, CHR 0x7D, CHR 0x7C, CHR 0x5C,
                 CHR 0x5E, CHR 0x60, CHR 0x5B, CHR 0x5D])"

definition URL_PATTERN :: rx where
  \<comment> \<open>\<open>^https?://[^\s<>"{}|\\^`\[\]]+$\<close>, matched from the start by \<open>re.match\<close>\<close>
  "URL_PATTERN = rseq [lit ''http'', ROpt (lit ''s''), lit ''://'', rplus url_char, Eol]"

definition validate_url :: "string option \<Rightarrow> bool" where
  "validate_url url =
     (case url of
        None \<Rightarrow> True
      | Some u \<Rightarrow> if u = [] then True else rx_match URL_PATTERN u None \<noteq> [])"

fun join :: "string \<Rightarrow> string list \<Rightarrow> string" where
  \<comment> \<open>\<open>sep.join(xs)\<close>\<close>
  "join sep [] = []"
| "join sep [x] = x"
| "join sep (x # y # ys) = x @ sep @ join sep (y # ys)"

record validation_result =
  is_valid :: bool
  errors :: "string list"

definition validate_extracted_data :: "AirlinePolicy \<Rightarrow> validation_result" where
  "validate_extracted_data policy =
     (let errors =
        (if \<not> validate_cop_amount (cost_name_change_domestic_cop policy)
         then [''Costo dom'' @ [CHR 0xE9] @ ''stico COP fuera de rango''] else []) @
        (if \<not> validate_usd_amount (cost_name_change_usd policy)
         then [''Costo USD fuera de rango''] else []) @
        (if \<not> validate_percentage (refund_percentage policy)
         then [''Porcentaje de reembolso inv'' @ [CHR 0xE1] @ ''lido''] else []) @
        (if \<not> validate_url (terms_url policy)
         then [''URL de t'' @ [CHR 0xE9] @ ''rminos inv'' @ [CHR 0xE1] @ ''lida''] else []) @
        (if \<not> validate_url (source_url policy)
         then [''URL de origen inv'' @ [CHR 0xE1] @ ''lida''] else []) @
        (if length (get_missing_fields policy) > 3
         then [''Faltan campos cr'' @ [CHR 0xED] @ ''ticos: ''
               @ join '', '' (get_missing_fields policy)] else [])
      in \<lparr> is_valid = (length errors = 0), errors = errors \<rparr>)"

definition apply_validation :: "AirlinePolicy \<Rightarrow> AirlinePolicy" where
  \<comment> \<open>step 5 of \<open>scrape\<close>: an invalid record is flagged and gets the errors as notes\<close>
  "apply_validation extracted =
     (let validation_result = validate_extracted_data extracted
      in if \<not> is_valid validation_result
         then extracted\<lparr>requires_manual_review := True,
                manual_review_notes := Some (join ''; '' (errors validation_result))\<rparr>
         else extracted)"


section \<open>Policy store (database.py)\<close>

text \<open>
  The table \<open>airline_policies\<close> is the list of its rows in row-id order. A row holds the
  columns that \<open>to_db_tuple\<close> writes; \<open>confidence_score\<close> is not a column, so a policy
  read back has the default 0.0 there. \<open>airline_code\<close> is declared \<open>UNIQUE\<close>, and
  \<open>INSERT OR REPLACE\<close> deletes the rows that conflict before it inserts the new row.
  The flag \<open>db_error\<close> of an operation says that \<open>sqlite3\<close> raised an error in it;
  \<open>insert_policy\<close> below is the method where the parameters bind.
\<close>

type_synonym table = "AirlinePolicy list"

definition insert_policy :: "bool \<Rightarrow> AirlinePolicy \<Rightarrow> table \<Rightarrow> bool \<times> table" where
  "insert_policy db_error policy t =
     (if db_error then (False, t)
      else (True, filter (\<lambda>r. airline_code r \<noteq> airline_code policy) t
                   @ [policy\<lparr>confidence_score := 0\<rparr>]))"

definition sqlite_integer :: "int option \<Rightarrow> bool" where
  \<comment> \<open>an \<open>INTEGER\<close> column takes null or a signed 64-bit value\<close>
  "sqlite_integer v = (case v of None \<Rightarrow> True | Some i \<Rightarrow> - (2 ^ 63) \<le> i \<and> i < 2 ^ 63)"

definition bind_parameters :: "AirlinePolicy \<Rightarrow> string option" where
  \<comment> \<open>binding \<open>to_db_tuple()\<close> to the statement: an int that does not fit raises
      \<open>OverflowError\<close>, which is not an \<open>sqlite3.Error\<close>; the result is its message\<close>
  "bind_parameters policy =
     (if sqlite_integer (cost_name_change_domestic_cop policy)
         \<and> sqlite_integer (cost_name_change_intl_cop policy)
         \<and> sqlite_integer (cancellation_cost_cop policy)
         \<and> sqlite_integer (refund_percentage policy)
      then None
      else Some ''Python int too large to convert to SQLite INTEGER'')"

definition insert_policy_call ::
  "bool \<Rightarrow> AirlinePolicy \<Rightarrow> table \<Rightarrow> string + (bool \<times> table)" where
  \<comment> \<open>a call of \<open>insert_policy\<close> as its caller sees it: \<open>Inl\<close> is the exception that the
      method does not catch. With \<open>db_error\<close> an \<open>sqlite3.Error\<close> is what was raised\<close>
  "insert_policy_call db_error policy t =
     (if db_error then Inr (insert_policy db_error policy t)
      else case bind_parameters policy of
             Some e \<Rightarrow> Inl e
           | None \<Rightarrow> Inr (insert_policy db_error policy t))"

definition order_by_scraped_at_desc :: "table \<Rightarrow> AirlinePolicy list" where
  "order_by_scraped_at_desc t = rev (sort_key scraped_at t)"

definition get_policy_by_code :: "bool \<Rightarrow> string \<Rightarrow> table \<Rightarrow> AirlinePolicy option" where
  "get_policy_by_code db_error code t =
     (if db_error then None
      else case filter (\<lambda>r. airline_code r = code) (order_by_scraped_at_desc t) of
             [] \<Rightarrow> None
           | r # _ \<Rightarrow> Some r)"

definition get_all_policies :: "bool \<Rightarrow> table \<Rightarrow> AirlinePolicy list" where
  "get_all_policies db_error t = (if db_error then [] else order_by_scraped_at_desc t)"

definition delete_policy :: "bool \<Rightarrow> string \<Rightarrow> table \<Rightarrow> bool \<times> table" where
  "delete_policy db_error code t =
     (if db_error then (False, t) else (True, filter (\<lambda>r. airline_code r \<noteq> code) t))"

definition clear_all_policies :: "bool \<Rightarrow> table \<Rightarrow> bool \<times> table" where
  "clear_all_policies db_error t = (if db_error then (False, t) else (True, []))"

definition rows_with_code :: "string \<Rightarrow> table \<Rightarrow> nat" where
  "rows_with_code code t = length (filter (\<lambda>r. airline_code r = code) t)"

definition one_row_per_code :: "table \<Rightarrow> bool" where
  "one_row_per_code t = distinct (map airline_code t)"

definition two_airlines :: table where
  "two_airlines = [new_policy ''Avianca'' ''AV'' 1, new_policy ''LATAM'' ''LA'' 2]"


section \<open>Viability report (analyzer.py, models.py)\<close>

datatype viability_band = VIABLE | VIABLE_CON_RESTRICCIONES | NO_VIABLE

datatype frame_error = AttributeError | KeyError

record ViabilityReport =
  total_airlines :: nat
  scraped_successfully :: int
  allow_transfer :: nat
  allow_name_change :: nat
  allow_name_correction_only :: nat
  avg_cost_domestic_cop :: "int option"
  min_cost_domestic_cop :: "int option"
  max_cost_domestic_cop :: "int option"
  viable_airlines :: "string list"
  non_viable_airlines :: "string list"
  market_coverage_percentage :: real
  overall_viability_score :: real
  conclusion :: viability_band
  recommendation :: viability_band

definition get_viability_status :: "ViabilityReport \<Rightarrow> viability_band" where
  "get_viability_status r =
     (if market_coverage_percentage r \<ge> 60 then VIABLE
      else if market_coverage_percentage r \<ge> 40 then VIABLE_CON_RESTRICCIONES
      else NO_VIABLE)"

record PolicyAnalyzer =
  df :: "AirlinePolicy list option"

definition frame_missing :: "PolicyAnalyzer \<Rightarrow> bool" where
  \<comment> \<open>\<open>self.df is None or self.df.empty\<close>\<close>
  "frame_missing a = (df a = None \<or> df a = Some [])"

definition load_data :: "bool \<Rightarrow> table \<Rightarrow> PolicyAnalyzer \<Rightarrow> PolicyAnalyzer" where
  \<comment> \<open>with no policies the method returns an empty frame and leaves \<open>self.df\<close> as it was\<close>
  "load_data db_error t a =
     (let policies = get_all_policies db_error t
      in if policies = [] then a else a\<lparr>df := Some policies\<rparr>)"

definition viable_mask :: "AirlinePolicy \<Rightarrow> bool" where
  "viable_mask p =
     (allows_transfer_to_third_party p = Some True \<or> allows_full_name_change p = Some True)"

definition market_coverage :: "AirlinePolicy list \<Rightarrow> real" where
  \<comment> \<open>the local \<open>market_coverage\<close> of \<open>generate_viability_report\<close>\<close>
  "market_coverage rows =
     (let total = length rows;
          viable_count = length (map airline_name (filter viable_mask rows))
      in if total > 0 then fl (fl (real viable_count / real total) * 100) else 0)"

definition generate_conclusion :: "real \<Rightarrow> viability_band" where
  \<comment> \<open>the branch that \<open>_generate_conclusion\<close> and \<open>_generate_recommendation\<close> take; the
      prose of the branch is not modelled\<close>
  "generate_conclusion coverage =
     (if coverage \<ge> market_coverage_ideal then VIABLE
      else if coverage \<ge> market_coverage_minimum then VIABLE_CON_RESTRICCIONES
      else NO_VIABLE)"

definition int_trunc :: "real \<Rightarrow> int" where
  \<comment> \<open>\<open>int(x)\<close> on a float: towards zero\<close>
  "int_trunc x = (if x \<ge> 0 then \<lfloor>x\<rfloor> else \<lceil>x\<rceil>)"

definition known_costs :: "AirlinePolicy list \<Rightarrow> int list" where
  \<comment> \<open>\<open>self.df['cost_name_change_domestic_cop'].dropna()\<close>\<close>
  "known_costs rows = concat (map (\<lambda>p. case cost_name_change_domestic_cop p of
                                          None \<Rightarrow> [] | Some c \<Rightarrow> [c]) rows)"

definition build_report :: "round_impl \<Rightarrow> AirlinePolicy list \<Rightarrow> ViabilityReport" where
  \<comment> \<open>the report of a non-empty frame, with the statistics that enter it; the coverage
      is a Python float, so its \<open>round\<close> is the built-in one; the mean is one division of
      the sum of the costs, which is exact below \<open>2^53\<close>\<close>
  "build_report impl rows =
     (let costs = known_costs rows;
          requires_review = length (filter requires_manual_review rows);
          coverage = market_coverage rows
      in \<lparr> total_airlines = length rows,
           scraped_successfully = int (length rows) - int requires_review,
           allow_transfer = length (filter (\<lambda>p. allows_transfer_to_third_party p = Some True) rows),
           allow_name_change = length (filter (\<lambda>p. allows_full_name_change p = Some True) rows),
           allow_name_correction_only =
             length (filter (\<lambda>p. allows_name_correction p = Some True) rows),
           avg_cost_domestic_cop =
             (case costs of [] \<Rightarrow> None
              | c # cs \<Rightarrow>
                  Some (int_trunc (fl (real_of_int (sum_list costs) / real (length costs))))),
           min_cost_domestic_cop = (case costs of [] \<Rightarrow> None | c # cs \<Rightarrow> Some (fold min cs c)),
           max_cost_domestic_cop = (case costs of [] \<Rightarrow> None | c # cs \<Rightarrow> Some (fold max cs c)),
           viable_airlines = map airline_name (filter viable_mask rows),
           non_viable_airlines = map airline_name (filter (\<lambda>p. \<not> viable_mask p) rows),
           market_coverage_percentage = float_round Builtin coverage 1,
           overall_viability_score = calculate_overall_viability_score impl rows,
           conclusion = generate_conclusion coverage,
           recommendation = generate_conclusion coverage \<rparr>)"

definition generate_viability_report ::
  "round_impl \<Rightarrow> bool \<Rightarrow> bool \<Rightarrow> table \<Rightarrow> PolicyAnalyzer
   \<Rightarrow> (frame_error + ViabilityReport) \<times> PolicyAnalyzer" where
  \<comment> \<open>\<open>e1\<close>, \<open>e2\<close>: storage errors of the two possible loads (the method's own and the one
      inside \<open>generate_statistics\<close>). With no frame after both, \<open>self.df.empty\<close> raises
      on \<open>None\<close>; an empty frame has no columns to index\<close>
  "generate_viability_report impl e1 e2 t a =
     (let a1 = (if frame_missing a then load_data e1 t a else a);
          a2 = (if frame_missing a1 then load_data e2 t a1 else a1)
      in case df a2 of
           None \<Rightarrow> (Inl AttributeError, a2)
         | Some [] \<Rightarrow> (Inl KeyError, a2)
         | Some (r # rs) \<Rightarrow> (Inr (build_report impl (r # rs)), a2))"

definition seven_airlines :: table where
  \<comment> \<open>seven rows: three allow the transfer; the other four do not (false or null) but
      allow a full name change\<close>
  "seven_airlines =
     [ (new_policy ''Avianca'' ''AV'' 1)\<lparr>allows_transfer_to_third_party := Some True\<rparr>,
       (new_policy ''LATAM'' ''LA'' 2)\<lparr>allows_transfer_to_third_party := Some True\<rparr>,
       (new_policy ''Wingo'' ''P5'' 3)\<lparr>allows_transfer_to_third_party := Some True\<rparr>,
       (new_policy ''EasyFly'' ''VE'' 4)\<lparr>allows_transfer_to_third_party := Some False,
           allows_full_name_change := Some True\<rparr>,
       (new_policy ''Satena'' ''9R'' 5)\<lparr>allows_transfer_to_third_party := Some False,
           allows_full_name_change := Some True\<rparr>,
       (new_policy ''Copa Airlines'' ''CM'' 6)\<lparr>allows_full_name_change := Some True\<rparr>,
       (new_policy ''JetSmart'' ''JA'' 7)\<lparr>allows_full_name_change := Some True\<rparr> ]"

definition seven_airlines_three_viable :: table where
  \<comment> \<open>seven rows: three allow the transfer; the other four allow neither\<close>
  "seven_airlines_three_viable =
     [ (new_policy ''Avianca'' ''AV'' 1)\<lparr>allows_transfer_to_third_party := Some True\<rparr>,
       (new_policy ''LATAM'' ''LA'' 2)\<lparr>allows_transfer_to_third_party := Some True\<rparr>,
       (new_policy ''Wingo'' ''P5'' 3)\<lparr>allows_transfer_to_third_party := Some True\<rparr>,
       (new_policy ''EasyFly'' ''VE'' 4)\<lparr>allows_transfer_to_third_party := Some False\<rparr>,
       (new_policy ''Satena'' ''9R'' 5)\<lparr>allows_transfer_to_third_party := Some False,
           allows_full_name_change := Some False\<rparr>,
       new_policy ''Copa Airlines'' ''CM'' 6,
       new_policy ''JetSmart'' ''JA'' 7 ]"

definition eighty_airlines :: "AirlinePolicy list" where
  \<comment> \<open>eighty records, 23 of which are viable; the exact coverage is 28.75\<close>
  "eighty_airlines =
     replicate 23 ((new_policy ''Avianca'' ''AV'' 0)\<lparr>allows_transfer_to_third_party := Some True\<rparr>)
     @ replicate 57 (new_policy ''LATAM'' ''LA'' 0)"


section \<open>The scrape operation (base_scraper.py)\<close>

record ScrapingResult =
  result_airline_name :: string
  success :: bool
  policy :: "AirlinePolicy option"
  error_message :: "string option"
  warnings :: "string list"
  execution_time_seconds :: real

record BaseScraper =
  scraper_airline_name :: string
  scraper_airline_code :: string
  base_url :: string
  policies_url :: string
  requires_javascript :: bool

text \<open>
  What one request does is given from outside: a response body, a
  \<open>requests.exceptions.RequestException\<close> (\<open>raise_for_status\<close> included), or any other
  exception. An exception is represented by its message.
\<close>

datatype attempt = Response string | RequestException string | OtherException string

fun fetch_attempts :: "nat \<Rightarrow> (nat \<Rightarrow> attempt) \<Rightarrow> nat list \<Rightarrow> string + string option" where
  \<comment> \<open>the loop \<open>for attempt in range(MAX_RETRIES)\<close> and the \<open>return None\<close> after it\<close>
  "fetch_attempts max_retries net [] = Inr None"
| "fetch_attempts max_retries net (attempt # rest) =
     (case net attempt of
        Response text \<Rightarrow> Inr (Some text)
      | RequestException e \<Rightarrow>
          (if attempt = max_retries - 1 then Inr None
           else fetch_attempts max_retries net rest)
      | OtherException e \<Rightarrow> Inl e)"

definition is_request_exception :: "attempt \<Rightarrow> bool" where
  "is_request_exception a = (case a of RequestException e \<Rightarrow> True | _ \<Rightarrow> False)"

definition fetch_page :: "nat \<Rightarrow> (nat \<Rightarrow> attempt) \<Rightarrow> string + string option" where
  "fetch_page max_retries net = fetch_attempts max_retries net [0..<max_retries]"

definition scrape_try ::
  "BaseScraper \<Rightarrow> nat \<Rightarrow> (nat \<Rightarrow> attempt) \<Rightarrow> (string \<Rightarrow> string option)
   \<Rightarrow> (string \<Rightarrow> string + AirlinePolicy) \<Rightarrow> bool
   \<Rightarrow> real \<Rightarrow> real \<Rightarrow> table \<Rightarrow> (string + ScrapingResult) \<times> table" where
  \<comment> \<open>the body of the \<open>try\<close>, as a step on the store: \<open>Inl\<close> is an exception raised in it,
      and the table beside it is the store at that moment. \<open>parse_error\<close> says whether
      building the parse tree of a page raises, \<open>extract_data\<close> is the abstract method on
      the page. The snapshot file and the log-only change detection leave no trace in
      the result or the store\<close>
  "scrape_try self max_retries net parse_error extract_data db_error start_time end_time t =
     (case fetch_page max_retries net of
        Inl e \<Rightarrow> (Inl e, t)
      | Inr None \<Rightarrow> (Inl ''No se pudo obtener contenido HTML'', t)
      | Inr (Some html_content) \<Rightarrow>
          if html_content = [] then (Inl ''No se pudo obtener contenido HTML'', t)
          else
            (case parse_error html_content of
               Some e \<Rightarrow> (Inl e, t)
             | None \<Rightarrow>
                 (case extract_data html_content of
                    Inl e \<Rightarrow> (Inl e, t)
                  | Inr extracted \<Rightarrow>
                      let reviewed = apply_validation extracted;
                          scored = reviewed\<lparr>confidence_score :=
                                     calculate_confidence_score reviewed\<rparr>
                      in case insert_policy_call db_error scored t of
                           Inl e \<Rightarrow> (Inl e, t)
                         | Inr (stored, t') \<Rightarrow>
                             (Inr \<lparr> result_airline_name = scraper_airline_name self,
                                    success = True, policy = Some scored,
                                    error_message = None, warnings = [],
                                    execution_time_seconds = end_time - start_time \<rparr>, t'))))"

definition scrape ::
  "BaseScraper \<Rightarrow> nat \<Rightarrow> (nat \<Rightarrow> attempt) \<Rightarrow> (string \<Rightarrow> string option)
   \<Rightarrow> (string \<Rightarrow> string + AirlinePolicy) \<Rightarrow> bool
   \<Rightarrow> real \<Rightarrow> real \<Rightarrow> table \<Rightarrow> ScrapingResult \<times> table" where
  \<comment> \<open>\<open>try: ... except Exception as e: ...\<close>: every exception of the body becomes a
      result; the handler does not touch the store, which stays as the body left it\<close>
  "scrape self max_retries net parse_error extract_data db_error start_time end_time t =
     (case scrape_try self max_retries net parse_error extract_data db_error start_time
             end_time t of
        (Inr result, t') \<Rightarrow> (result, t')
      | (Inl error_msg, t') \<Rightarrow>
          (\<lparr> result_airline_name = scraper_airline_name self, success = False,
             policy = None, error_message = Some error_msg, warnings = [],
             execution_time_seconds = end_time - start_time \<rparr>, t'))"

definition avianca :: BaseScraper where
  "avianca = \<lparr> scraper_airline_name = ''Avianca'', scraper_airline_code = ''AV'',
               base_url = ''https://www.avianca.com'',
               policies_url = ''https://www.avianca.com/co/es/experiencia/condiciones-transporte/'',
               requires_javascript = False \<rparr>"


section \<open>Properties of boolean policy detection\<close>

lemma policy_decision_range:
  "0 \<le> snd (policy_decision p n) \<and> snd (policy_decision p n) \<le> 9 / 10"
  by (auto simp add: policy_decision_def min_def)

text \<open>
  C1. With no keyword list, the text "no se permite el cambio de nombre" is meant to give
  false with a positive confidence. The code gives the unknown value with confidence 0:
  the positive pattern \<open>permite\<close> is found inside the negative phrase, so both counts
  are 1 and the tie branch is taken. The text "se permite el cambio de nombre" gives
  true (with confidence 1/2).
\<close>

theorem detect_boolean_policy_no_se_permite:
  "detect_boolean_policy ''no se permite el cambio de nombre'' None = (None, 0)
   \<and> detect_boolean_policy ''se permite el cambio de nombre'' None = (Some True, 1 / 2)"
  by code_simp

text \<open>
  C6. Boolean policy detection is symmetric in the two match counts: exchanging the
  number of positive and the number of negative matches exchanges true and false (the
  unknown value of a tie stays unknown) and leaves the confidence as it is.
\<close>

theorem policy_decision_symmetric:
  "policy_decision n p =
     (map_option Not (fst (policy_decision p n)), snd (policy_decision p n))"
  by (simp add: policy_decision_def add.commute)

text \<open>
  C7. For every text and keyword list the confidence of boolean policy detection lies
  in [0, 0.9]. On a non-empty text, where the code counts matches: if one side has
  strictly more matches, the answer is that side and the confidence is its count
  divided by (total matches + 1), capped at 0.9; if the counts tie (zero against zero
  included) the answer is unknown with confidence exactly 0. On the empty text nothing
  is counted and the answer is unknown with confidence 0.
\<close>

theorem detect_boolean_policy_confidence:
  "0 \<le> snd (detect_boolean_policy text keywords)
   \<and> snd (detect_boolean_policy text keywords) \<le> 9 / 10
   \<and> (text = [] \<longrightarrow> detect_boolean_policy text keywords = (None, 0))
   \<and> (text \<noteq> [] \<longrightarrow>
        (let p = positive_matches (strip (lower text)) keywords;
             n = negative_matches (strip (lower text))
         in (n < p \<longrightarrow> detect_boolean_policy text keywords =
                          (Some True, min (real p / real (p + n + 1)) (9 / 10)))
          \<and> (p < n \<longrightarrow> detect_boolean_policy text keywords =
                          (Some False, min (real n / real (p + n + 1)) (9 / 10)))
          \<and> (p = n \<longrightarrow> detect_boolean_policy text keywords = (None, 0))))"
proof -
  have range: "0 \<le> snd (detect_boolean_policy text keywords)
      \<and> snd (detect_boolean_policy text keywords) \<le> 9 / 10"
    using policy_decision_range by (simp add: detect_boolean_policy_def Let_def)
  have empty: "text = [] \<longrightarrow> detect_boolean_policy text keywords = (None, 0)"
    by (simp add: detect_boolean_policy_def)
  have counted: "text \<noteq> [] \<longrightarrow>
        (let p = positive_matches (strip (lower text)) keywords;
             n = negative_matches (strip (lower text))
         in (n < p \<longrightarrow> detect_boolean_policy text keywords =
                          (Some True, min (real p / real (p + n + 1)) (9 / 10)))
          \<and> (p < n \<longrightarrow> detect_boolean_policy text keywords =
                          (Some False, min (real n / real (p + n + 1)) (9 / 10)))
          \<and> (p = n \<longrightarrow> detect_boolean_policy text keywords = (None, 0)))"
    by (simp add: detect_boolean_policy_def policy_decision_def Let_def)
  from range empty counted show ?thesis by blast
qed


theorem detect_boolean_policy_confidence_witness:
  "''se permite'' \<noteq> []
   \<and> negative_matches (strip (lower ''se permite'')) < positive_matches (strip (lower ''se permite'')) None
   \<and> detect_boolean_policy ''se permite'' None = (Some True, 1 / 2)
   \<and> positive_matches (strip (lower ''Prohibido'')) None < negative_matches (strip (lower ''Prohibido''))
   \<and> detect_boolean_policy ''Prohibido'' None = (Some False, 1 / 2)
   \<and> positive_matches (strip (lower ''no se permite'')) None = negative_matches (strip (lower ''no se permite''))
   \<and> detect_boolean_policy ''no se permite'' None = (None, 0)
   \<and> detect_boolean_policy [] (Some [[]]) = (None, 0)"
proof -
  have a: "positive_matches (strip (lower ''se permite'')) None = 1"
    and b: "negative_matches (strip (lower ''se permite'')) = 0"
    and c: "positive_matches (strip (lower ''Prohibido'')) None = 0"
    and d: "negative_matches (strip (lower ''Prohibido'')) = 1"
    and e: "positive_matches (strip (lower ''no se permite'')) None = 1"
    and f: "negative_matches (strip (lower ''no se permite'')) = 1"
    by code_simp+
  show ?thesis
    using detect_boolean_policy_confidence [of "''se permite''" None]
      detect_boolean_policy_confidence [of "''Prohibido''" None]
      detect_boolean_policy_confidence [of "''no se permite''" None]
      detect_boolean_policy_confidence [of "[]" "Some [[]]"]
    by (simp add: a b c d e f Let_def)
qed


section \<open>Properties of amount extraction\<close>

lemma cop_loop_first_parse: "cop_loop ps t = first_parse cop_parse ps t"
  by (induction ps)
     (auto simp add: first_parse_def cop_parse_def split: option.splits sum.splits py_error.splits)

lemma usd_loop_first_parse: "usd_loop ps t = first_parse usd_parse ps t"
  by (induction ps)
     (auto simp add: first_parse_def usd_parse_def split: option.splits sum.splits py_error.splits)

lemma first_parse_none:
  "list_all (\<lambda>p. parse p t = None) ps \<Longrightarrow> first_parse parse ps t = None"
  by (induction ps) (auto simp add: first_parse_def)

lemma cop_example: "extract_cop_amount ''$150.000 COP'' = Some 150000"
  by code_simp

lemma usd_example: "extract_usd_amount ''$45.50 USD'' = Some (91 / 2)"
  by code_simp


lemma cop_empty: "first_parse cop_parse REGEX_COSTOS_COP [] = None"
  by code_simp

lemma usd_empty: "first_parse usd_parse REGEX_COSTOS_USD [] = None"
  by code_simp

lemma strip_empty: "strip [] = []"
  by (simp add: strip_def)

text \<open>
  C2. For every text, COP and USD amount extraction (on the text without its surrounding
  blanks) returns the parse of the first pattern of its list, in order, whose first
  match parses once the separators are removed: an integer for COP, the decimal value
  for USD. Where no pattern yields a parse it returns null; the \<open>ValueError\<close> of a failed
  parse is caught inside, so no exception leaves the function. In particular
  "$150.000 COP" gives 150000 and "$45.50 USD" gives 45.5.
\<close>

theorem extract_amount_first_parse:
  "extract_cop_amount text = first_parse cop_parse REGEX_COSTOS_COP (strip text)
   \<and> extract_usd_amount text = first_parse usd_parse REGEX_COSTOS_USD (strip text)
   \<and> (list_all (\<lambda>p. cop_parse p (strip text) = None) REGEX_COSTOS_COP
        \<longrightarrow> extract_cop_amount text = None)
   \<and> (list_all (\<lambda>p. usd_parse p (strip text) = None) REGEX_COSTOS_USD
        \<longrightarrow> extract_usd_amount text = None)
   \<and> extract_cop_amount ''$150.000 COP'' = Some 150000
   \<and> extract_usd_amount ''$45.50 USD'' = Some (91 / 2)"
proof -
  have cop: "extract_cop_amount text = first_parse cop_parse REGEX_COSTOS_COP (strip text)"
    by (cases "text = []")
       (simp_all add: extract_cop_amount_def cop_loop_first_parse strip_empty cop_empty)
  have usd: "extract_usd_amount text = first_parse usd_parse REGEX_COSTOS_USD (strip text)"
    by (cases "text = []")
       (simp_all add: extract_usd_amount_def usd_loop_first_parse strip_empty usd_empty)
  have cop_none: "list_all (\<lambda>p. cop_parse p (strip text) = None) REGEX_COSTOS_COP
        \<longrightarrow> extract_cop_amount text = None"
    using cop first_parse_none [of cop_parse "strip text" REGEX_COSTOS_COP] by simp
  have usd_none: "list_all (\<lambda>p. usd_parse p (strip text) = None) REGEX_COSTOS_USD
        \<longrightarrow> extract_usd_amount text = None"
    using usd first_parse_none [of usd_parse "strip text" REGEX_COSTOS_USD] by simp
  from cop usd cop_none usd_none cop_example usd_example show ?thesis by blast
qed

theorem extract_amount_first_parse_witness:
  "list_all (\<lambda>p. cop_parse p (strip ''sin costo'') = None) REGEX_COSTOS_COP
   \<and> extract_cop_amount ''sin costo'' = None
   \<and> list_all (\<lambda>p. usd_parse p (strip ''sin costo'') = None) REGEX_COSTOS_USD
   \<and> extract_usd_amount ''sin costo'' = None"
proof -
  have a: "list_all (\<lambda>p. cop_parse p (strip ''sin costo'') = None) REGEX_COSTOS_COP"
    by code_simp
  have b: "list_all (\<lambda>p. usd_parse p (strip ''sin costo'') = None) REGEX_COSTOS_USD"
    by code_simp
  show ?thesis
    using extract_amount_first_parse [of "''sin costo''"] a b by blast
qed

section \<open>Properties of rounding and of the confidence score\<close>

lemma round_half_even_bounds: "\<lfloor>x\<rfloor> \<le> round_half_even x \<and> round_half_even x \<le> \<lfloor>x\<rfloor> + 1"
  by (simp add: round_half_even_def Let_def)

lemma round_half_even_mono: "x \<le> y \<Longrightarrow> round_half_even x \<le> round_half_even y"
proof -
  assume xy: "x \<le> y"
  have fl: "\<lfloor>x\<rfloor> \<le> \<lfloor>y\<rfloor>" using xy by (rule floor_mono)
  show ?thesis
  proof (cases "\<lfloor>x\<rfloor> = \<lfloor>y\<rfloor>")
    case True
    then show ?thesis using xy by (auto simp add: round_half_even_def Let_def)
  next
    case False
    then have "\<lfloor>x\<rfloor> + 1 \<le> \<lfloor>y\<rfloor>" using fl by simp
    then show ?thesis
      using round_half_even_bounds [of x] round_half_even_bounds [of y] by linarith
  qed
qed

lemma round_half_even_of_int: "round_half_even (of_int k) = k"
  by (simp add: round_half_even_def)

lemma round_half_even_close: "\<bar>of_int (round_half_even x) - x\<bar> \<le> 1 / 2"
  unfolding round_half_even_def Let_def
  by (auto simp add: abs_if) linarith+

lemma py_round_mono: "x \<le> y \<Longrightarrow> py_round x n \<le> py_round y n"
  by (simp add: py_round_def divide_right_mono round_half_even_mono)

lemma count_fields_eval:
  "count_fields w bs (t, f) = (t + w * length bs, f + w * length (filter id bs))"
  by (induction bs arbitrary: t f) auto

lemma confidence_score_eq:
  "calculate_confidence_score p = py_round (real (filled_weight p) / 12) 2"
  by (simp add: calculate_confidence_score_def count_fields_eval filled_weight_def
      critical_fields_def important_fields_def)

lemma confidence_score_mono:
  "filled_weight p \<le> filled_weight q \<Longrightarrow>
   calculate_confidence_score p \<le> calculate_confidence_score q"
  by (simp add: confidence_score_eq py_round_mono divide_right_mono)

text \<open>
  C5. The field-coverage confidence score is the weight of the populated fields (each of
  the 4 critical fields counts 2, each of the 4 important fields counts 1) divided by
  the total weight 12, rounded to 2 decimals; and it is monotonic: setting any one
  critical or important field from null to a value, all other fields kept, never
  decreases it.
\<close>

theorem confidence_score_monotonic:
  "calculate_confidence_score p = py_round (real (filled_weight p) / 12) 2
   \<and> (allows_full_name_change p = None \<longrightarrow>
        calculate_confidence_score p
          \<le> calculate_confidence_score (p\<lparr>allows_full_name_change := Some b1\<rparr>))
   \<and> (allows_name_correction p = None \<longrightarrow>
        calculate_confidence_score p
          \<le> calculate_confidence_score (p\<lparr>allows_name_correction := Some b2\<rparr>))
   \<and> (allows_transfer_to_third_party p = None \<longrightarrow>
        calculate_confidence_score p
          \<le> calculate_confidence_score (p\<lparr>allows_transfer_to_third_party := Some b3\<rparr>))
   \<and> (cost_name_change_domestic_cop p = None \<longrightarrow>
        calculate_confidence_score p
          \<le> calculate_confidence_score (p\<lparr>cost_name_change_domestic_cop := Some c1\<rparr>))
   \<and> (allows_cancellation p = None \<longrightarrow>
        calculate_confidence_score p
          \<le> calculate_confidence_score (p\<lparr>allows_cancellation := Some b4\<rparr>))
   \<and> (cancellation_cost_cop p = None \<longrightarrow>
        calculate_confidence_score p
          \<le> calculate_confidence_score (p\<lparr>cancellation_cost_cop := Some c2\<rparr>))
   \<and> (refund_percentage p = None \<longrightarrow>
        calculate_confidence_score p
          \<le> calculate_confidence_score (p\<lparr>refund_percentage := Some c3\<rparr>))
   \<and> (time_restrictions p = None \<longrightarrow>
        calculate_confidence_score p
          \<le> calculate_confidence_score (p\<lparr>time_restrictions := Some t\<rparr>))"
proof -
  have f1: "filled_weight p \<le> filled_weight (p\<lparr>allows_full_name_change := Some b1\<rparr>)"
    by (simp add: filled_weight_def critical_fields_def important_fields_def)
  have f2: "filled_weight p \<le> filled_weight (p\<lparr>allows_name_correction := Some b2\<rparr>)"
    by (simp add: filled_weight_def critical_fields_def important_fields_def)
  have f3: "filled_weight p \<le> filled_weight (p\<lparr>allows_transfer_to_third_party := Some b3\<rparr>)"
    by (simp add: filled_weight_def critical_fields_def important_fields_def)
  have f4: "filled_weight p \<le> filled_weight (p\<lparr>cost_name_change_domestic_cop := Some c1\<rparr>)"
    by (simp add: filled_weight_def critical_fields_def important_fields_def)
  have f5: "filled_weight p \<le> filled_weight (p\<lparr>allows_cancellation := Some b4\<rparr>)"
    by (simp add: filled_weight_def critical_fields_def important_fields_def)
  have f6: "filled_weight p \<le> filled_weight (p\<lparr>cancellation_cost_cop := Some c2\<rparr>)"
    by (simp add: filled_weight_def critical_fields_def important_fields_def)
  have f7: "filled_weight p \<le> filled_weight (p\<lparr>refund_percentage := Some c3\<rparr>)"
    by (simp add: filled_weight_def critical_fields_def important_fields_def)
  have f8: "filled_weight p \<le> filled_weight (p\<lparr>time_restrictions := Some t\<rparr>)"
    by (simp add: filled_weight_def critical_fields_def important_fields_def)
  show ?thesis
    using confidence_score_eq [of p]
      confidence_score_mono [OF f1] confidence_score_mono [OF f2]
      confidence_score_mono [OF f3] confidence_score_mono [OF f4]
      confidence_score_mono [OF f5] confidence_score_mono [OF f6]
      confidence_score_mono [OF f7] confidence_score_mono [OF f8]
    by blast
qed

theorem confidence_score_monotonic_witness:
  "allows_full_name_change (new_policy ''Avianca'' ''AV'' 0) = None
   \<and> calculate_confidence_score (new_policy ''Avianca'' ''AV'' 0) = 0
   \<and> calculate_confidence_score
         ((new_policy ''Avianca'' ''AV'' 0)\<lparr>allows_full_name_change := Some False\<rparr>) = 17 / 100
   \<and> calculate_confidence_score (new_policy ''Avianca'' ''AV'' 0)
        \<le> calculate_confidence_score
             ((new_policy ''Avianca'' ''AV'' 0)\<lparr>allows_full_name_change := Some False\<rparr>)"
proof -
  have a: "allows_full_name_change (new_policy ''Avianca'' ''AV'' 0) = None"
    by (simp add: new_policy_def)
  have b: "calculate_confidence_score (new_policy ''Avianca'' ''AV'' 0) = 0"
    by (simp add: calculate_confidence_score_def critical_fields_def important_fields_def
        new_policy_def py_round_def round_half_even_def)
  have c: "calculate_confidence_score
         ((new_policy ''Avianca'' ''AV'' 0)\<lparr>allows_full_name_change := Some False\<rparr>) = 17 / 100"
    by (simp add: calculate_confidence_score_def critical_fields_def important_fields_def
        new_policy_def py_round_def round_half_even_def Let_def)
  show ?thesis
    using confidence_score_monotonic [of "new_policy ''Avianca'' ''AV'' 0" False] a b c
    by simp
qed


section \<open>Properties of double rounding\<close>

lemma round_half_even_eq:
  "of_int k - 1 / 2 < z \<Longrightarrow> z < of_int k + 1 / 2 \<Longrightarrow> round_half_even z = k"
  using round_half_even_close [of z] by linarith

lemma fl_exp_bounds:
  assumes "x \<noteq> 0"
  shows "2 powi (fl_exp x + 52) \<le> \<bar>x\<bar>" and "\<bar>x\<bar> < 2 powi (fl_exp x + 53)"
proof -
  have pos: "0 < \<bar>x\<bar>" using assms by simp
  have "\<lfloor>log 2 \<bar>x\<bar>\<rfloor> = fl_exp x + 52" by (simp add: fl_exp_def)
  then have b: "2 powr real_of_int (fl_exp x + 52) \<le> \<bar>x\<bar>
      \<and> \<bar>x\<bar> < 2 powr (real_of_int (fl_exp x + 52) + 1)"
    using floor_log_eq_powr_iff [of "\<bar>x\<bar>" 2 "fl_exp x + 52"] pos by simp
  have c: "real_of_int (fl_exp x + 52) + 1 = real_of_int (fl_exp x + 53)" by simp
  show "2 powi (fl_exp x + 52) \<le> \<bar>x\<bar>"
    using b powr_real_of_int' [of 2 "fl_exp x + 52"] by simp
  show "\<bar>x\<bar> < 2 powi (fl_exp x + 53)"
    using b powr_real_of_int' [of 2 "fl_exp x + 53"] by (simp only: c) simp
qed

lemma fl_exp_eq:
  assumes "2 powi a \<le> \<bar>x\<bar>" and "\<bar>x\<bar> < 2 powi (a + 1)"
  shows "fl_exp x = a - 52"
proof -
  have pos: "0 < \<bar>x\<bar>"
    using assms(1) zero_less_power_int [of "2::real" a] by linarith
  have "2 powr real_of_int a \<le> \<bar>x\<bar> \<and> \<bar>x\<bar> < 2 powr (real_of_int a + 1)"
    using assms powr_real_of_int' [of 2 a] powr_real_of_int' [of 2 "a + 1"]
    by (simp add: add.commute)
  then have "\<lfloor>log 2 \<bar>x\<bar>\<rfloor> = a"
    using floor_log_eq_powr_iff [of "\<bar>x\<bar>" 2 a] pos by simp
  then show ?thesis by (simp add: fl_exp_def)
qed

lemma fl_error: "\<bar>fl x - x\<bar> \<le> \<bar>x\<bar> / 2 ^ 53"
proof (cases "x = 0")
  case True
  then show ?thesis by (simp add: fl_def)
next
  case False
  define p :: real where "p = 2 powi fl_exp x"
  have p: "0 < p" by (simp add: p_def)
  have "\<bar>of_int (round_half_even (x / p)) - x / p\<bar> \<le> 1 / 2"
    by (rule round_half_even_close)
  then have "\<bar>of_int (round_half_even (x / p)) - x / p\<bar> * p \<le> 1 / 2 * p"
    using p by (intro mult_right_mono) simp_all
  then have "\<bar>(of_int (round_half_even (x / p)) - x / p) * p\<bar> \<le> p / 2"
    using p by (simp add: abs_mult)
  then have e: "\<bar>of_int (round_half_even (x / p)) * p - x\<bar> \<le> p / 2"
    using p by (simp add: algebra_simps)
  have "2 powi (fl_exp x + 52) = p * 2 ^ 52"
    by (simp add: p_def power_int_add)
  then have "p * 2 ^ 52 \<le> \<bar>x\<bar>" using fl_exp_bounds(1) [OF False] by simp
  then have "p / 2 \<le> \<bar>x\<bar> / 2 ^ 53" by (simp add: field_simps)
  with e show ?thesis using False by (simp add: fl_def p_def)
qed

lemma fl_nonneg: "0 \<le> x \<Longrightarrow> 0 \<le> fl x"
  using fl_error [of x] by (simp add: abs_if field_simps split: if_splits) 

lemma fl_zero: "fl 0 = 0"
  by (simp add: fl_def)

lemma fl_one: "fl 1 = 1"
proof -
  have "fl_exp 1 = 0 - 52" by (rule fl_exp_eq) simp_all
  then show ?thesis by (simp add: fl_def round_half_even_def power_int_minus)
qed

lemma fl_hundred: "fl 100 = 100"
proof -
  have "fl_exp 100 = 6 - 52" by (rule fl_exp_eq) simp_all
  then show ?thesis by (simp add: fl_def round_half_even_def power_int_minus)
qed

lemma fl_small: "\<bar>x\<bar> \<le> 2 \<Longrightarrow> \<bar>fl x - x\<bar> \<le> 1 / 2 ^ 52"
proof -
  assume "\<bar>x\<bar> \<le> 2"
  then have "\<bar>x\<bar> / 2 ^ 53 \<le> 2 / 2 ^ 53" by (intro divide_right_mono) simp_all
  with fl_error [of x] show ?thesis by simp
qed

lemma fl_approx:
  "\<bar>x - y\<bar> \<le> e \<Longrightarrow> \<bar>y\<bar> \<le> 1 \<Longrightarrow> e \<le> 1 \<Longrightarrow> \<bar>fl x - y\<bar> \<le> e + 1 / 2 ^ 52"
proof -
  assume a: "\<bar>x - y\<bar> \<le> e" "\<bar>y\<bar> \<le> 1" "e \<le> 1"
  then have "\<bar>x\<bar> \<le> 2" by linarith
  with fl_small [of x] a show ?thesis by linarith
qed

lemma approx_mult:
  fixes x y a b e1 e2 :: real
  assumes "\<bar>x - a\<bar> \<le> e1" and "\<bar>y - b\<bar> \<le> e2" and "\<bar>a\<bar> \<le> 1" and "\<bar>b\<bar> \<le> 1" and "e1 \<le> 1"
  shows "\<bar>x * y - a * b\<bar> \<le> e1 + 2 * e2"
proof -
  have x: "\<bar>x\<bar> \<le> 2" using assms(1,3,5) by linarith
  have e2: "0 \<le> e2" using assms(2) by linarith
  have "x * y - a * b = x * (y - b) + b * (x - a)" by (simp add: algebra_simps)
  then have "\<bar>x * y - a * b\<bar> \<le> \<bar>x\<bar> * \<bar>y - b\<bar> + \<bar>b\<bar> * \<bar>x - a\<bar>"
    by (simp add: abs_mult [symmetric]) 
  moreover have "\<bar>x\<bar> * \<bar>y - b\<bar> \<le> 2 * e2"
    using x assms(2) e2 by (intro mult_mono) simp_all
  moreover have "\<bar>b\<bar> * \<bar>x - a\<bar> \<le> 1 * e1"
    using assms(1,4) by (intro mult_mono) simp_all
  ultimately show ?thesis by linarith
qed

lemma fl_eval:
  assumes "2 powi a \<le> \<bar>x\<bar>" and "\<bar>x\<bar> < 2 powi (a + 1)"
  shows "fl x = of_int (round_half_even (x / 2 powi (a - 52))) * 2 powi (a - 52)"
proof -
  have "0 < \<bar>x\<bar>" using assms(1) zero_less_power_int [of "2::real" a] by linarith
  then have "x \<noteq> 0" by simp
  then show ?thesis using fl_exp_eq [OF assms] by (simp add: fl_def)
qed

lemma int_between:
  fixes k :: int
  assumes "real_of_int a - 1 < of_int k" and "of_int k < real_of_int b + 1"
  shows "a \<le> k \<and> k \<le> b"
proof -
  have "real_of_int (a - 1) < of_int k" using assms(1) by simp
  then have 1: "a - 1 < k" by (simp only: of_int_less_iff)
  have "real_of_int k < of_int (b + 1)" using assms(2) by simp
  then have 2: "k < b + 1" by (simp only: of_int_less_iff)
  from 1 2 show ?thesis by simp
qed

lemma float_round_two:
  assumes x: "\<bar>x - w\<bar> \<le> 15 / 2 ^ 52" and w: "0 \<le> w" "w \<le> 1"
  shows "\<exists>k. 0 \<le> k \<and> k \<le> 100 \<and> float_round impl x 2 = fl (of_int k / 100)
             \<and> \<bar>of_int k / 100 - w\<bar> \<le> 1 / 200 + 1 / 10 ^ 13"
proof (cases impl)
  case Builtin
  define k where "k = round_half_even (x * 100)"
  have h: "\<bar>of_int k - x * 100\<bar> \<le> 1 / 2"
    unfolding k_def by (rule round_half_even_close)
  have c: "\<bar>of_int k / 100 - w\<bar> \<le> 1 / 200 + 1 / 10 ^ 13"
    using h x by (simp add: abs_if split: if_splits) 
  have "real_of_int 0 - 1 < of_int k" "of_int k < real_of_int 100 + 1"
    using h x w by (simp_all add: abs_if split: if_splits)
  then have r: "0 \<le> k \<and> k \<le> 100" by (rule int_between)
  have "float_round impl x 2 = fl (of_int k / 100)"
    by (simp add: float_round_def Builtin k_def)
  with r c show ?thesis by blast
next
  case Numpy
  define y where "y = fl (x * 100)"
  define k where "k = round_half_even y"
  have xb: "\<bar>x * 100\<bar> \<le> 101" using x w by (simp add: abs_if split: if_splits)
  have "\<bar>y - x * 100\<bar> \<le> \<bar>x * 100\<bar> / 2 ^ 53"
    unfolding y_def by (rule fl_error)
  moreover have "\<bar>x * 100\<bar> / 2 ^ 53 \<le> 101 / 2 ^ 53"
    using xb by (intro divide_right_mono) simp_all
  ultimately have y: "\<bar>y - x * 100\<bar> \<le> 101 / 2 ^ 53" by linarith
  have h: "\<bar>of_int k - y\<bar> \<le> 1 / 2"
    unfolding k_def by (rule round_half_even_close)
  have c: "\<bar>of_int k / 100 - w\<bar> \<le> 1 / 200 + 1 / 10 ^ 13"
    using h y x by (simp add: abs_if split: if_splits)
  have "real_of_int 0 - 1 < of_int k" "of_int k < real_of_int 100 + 1"
    using h y x w by (simp_all add: abs_if split: if_splits)
  then have r: "0 \<le> k \<and> k \<le> 100" by (rule int_between)
  have "float_round impl x 2 = fl (of_int k / 100)"
    by (simp add: float_round_def Numpy k_def y_def)
  with r c show ?thesis by blast
qed

lemma fl_cent:
  assumes "0 \<le> k" and "k \<le> 100"
  shows "0 \<le> fl (of_int k / 100) \<and> fl (of_int k / 100) \<le> 1
         \<and> \<bar>fl (of_int k / 100) - of_int k / 100\<bar> \<le> 1 / 2 ^ 53"
proof -
  have r: "0 \<le> real_of_int k / 100" "real_of_int k / 100 \<le> 1" using assms by simp_all
  have e: "\<bar>fl (of_int k / 100) - of_int k / 100\<bar> \<le> \<bar>real_of_int k / 100\<bar> / 2 ^ 53"
    by (rule fl_error)
  have "\<bar>real_of_int k / 100\<bar> / 2 ^ 53 \<le> 1 / 2 ^ 53"
    using r by (intro divide_right_mono) simp_all
  with e have e1: "\<bar>fl (of_int k / 100) - of_int k / 100\<bar> \<le> 1 / 2 ^ 53" by linarith
  have n: "0 \<le> fl (of_int k / 100)" using r by (intro fl_nonneg)
  have u: "fl (of_int k / 100) \<le> 1"
  proof (cases "k = 100")
    case True
    then show ?thesis by (simp add: fl_one)
  next
    case False
    with assms have "k \<le> 99" by simp
    then have "real_of_int k \<le> 99" by (simp only: of_int_le_iff [of k 99, symmetric] of_int_numeral)
    then have "real_of_int k / 100 \<le> 99 / 100" by simp
    with e1 show ?thesis by (simp add: abs_if split: if_splits)
  qed
  from n u e1 show ?thesis by blast
qed


section \<open>Properties of the viability score\<close>

lemma fraction_range: "0 \<le> fraction P xs \<and> fraction P xs \<le> 1"
  by (simp add: fraction_def divide_le_eq_1)

lemma weighted_term:
  assumes "0 \<le> a" and "a \<le> 1" and "0 \<le> w" and "w \<le> 1"
  shows "\<bar>fl (fl a * fl w) - a * w\<bar> \<le> 4 / 2 ^ 52"
proof -
  have 1: "\<bar>fl a - a\<bar> \<le> 1 / 2 ^ 52" using assms by (intro fl_small) simp
  have 2: "\<bar>fl w - w\<bar> \<le> 1 / 2 ^ 52" using assms by (intro fl_small) simp
  have 3: "\<bar>fl a * fl w - a * w\<bar> \<le> 1 / 2 ^ 52 + 2 * (1 / 2 ^ 52)"
    using 1 2 assms by (intro approx_mult) simp_all
  have aw: "\<bar>a * w\<bar> \<le> 1"
    using assms mult_le_one [of a w] by (simp add: abs_mult)
  have "\<bar>fl (fl a * fl w) - a * w\<bar> \<le> (1 / 2 ^ 52 + 2 * (1 / 2 ^ 52)) + 1 / 2 ^ 52"
    using 3 aw by (intro fl_approx) simp_all
  then show ?thesis by simp
qed

lemma data_term:
  assumes "0 \<le> b" and "b \<le> 1" and "0 \<le> w" and "w \<le> 1"
  shows "\<bar>fl (fl (1 - fl b) * fl w) - (1 - b) * w\<bar> \<le> 5 / 2 ^ 52"
proof -
  have 1: "\<bar>fl b - b\<bar> \<le> 1 / 2 ^ 52" using assms by (intro fl_small) simp
  then have "\<bar>(1 - fl b) - (1 - b)\<bar> \<le> 1 / 2 ^ 52" by linarith
  then have 2: "\<bar>fl (1 - fl b) - (1 - b)\<bar> \<le> 1 / 2 ^ 52 + 1 / 2 ^ 52"
    using assms by (intro fl_approx) simp_all
  have 3: "\<bar>fl w - w\<bar> \<le> 1 / 2 ^ 52" using assms by (intro fl_small) simp
  have 4: "\<bar>fl (1 - fl b) * fl w - (1 - b) * w\<bar> \<le> (1 / 2 ^ 52 + 1 / 2 ^ 52) + 2 * (1 / 2 ^ 52)"
    using 2 3 assms by (intro approx_mult) simp_all
  have bw: "\<bar>(1 - b) * w\<bar> \<le> 1"
    using assms mult_le_one [of "1 - b" w] by (simp add: abs_mult)
  have "\<bar>fl (fl (1 - fl b) * fl w) - (1 - b) * w\<bar>
      \<le> ((1 / 2 ^ 52 + 1 / 2 ^ 52) + 2 * (1 / 2 ^ 52)) + 1 / 2 ^ 52"
    using 4 bw by (intro fl_approx) simp_all
  then show ?thesis by simp
qed

lemma weighted_viability_range: "0 \<le> weighted_viability rows \<and> weighted_viability rows \<le> 1"
proof -
  have a: "0 \<le> fraction allows_transfer rows" "fraction allows_transfer rows \<le> 1"
    and b: "0 \<le> fraction reasonable_cost rows" "fraction reasonable_cost rows \<le> 1"
    and c: "0 \<le> fraction requires_manual_review rows" "fraction requires_manual_review rows \<le> 1"
    using fraction_range by blast+
  have "0 \<le> weighted_viability rows" unfolding weighted_viability_def using a b c by argo
  moreover have "weighted_viability rows \<le> 1" unfolding weighted_viability_def using a b c by argo
  ultimately show ?thesis by blast
qed

lemma overall_score_close:
  "\<bar>overall_score rows - weighted_viability rows\<bar> \<le> 15 / 2 ^ 52"
proof -
  define a where "a = fraction allows_transfer rows"
  define c where "c = fraction reasonable_cost rows"
  define b where "b = fraction requires_manual_review rows"
  define ts where "ts = fl (fl a * fl (5 / 10))"
  define cs where "cs = fl (fl c * fl (3 / 10))"
  define ds where "ds = fl (fl (1 - fl b) * fl (2 / 10))"
  have ra: "0 \<le> a" "a \<le> 1" and rc: "0 \<le> c" "c \<le> 1" and rb: "0 \<le> b" "b \<le> 1"
    using fraction_range by (auto simp add: a_def b_def c_def)
  have ts: "\<bar>ts - a * (5 / 10)\<bar> \<le> 4 / 2 ^ 52"
    unfolding ts_def using ra by (intro weighted_term) simp_all
  have cs: "\<bar>cs - c * (3 / 10)\<bar> \<le> 4 / 2 ^ 52"
    unfolding cs_def using rc by (intro weighted_term) simp_all
  have ds: "\<bar>ds - (1 - b) * (2 / 10)\<bar> \<le> 5 / 2 ^ 52"
    unfolding ds_def using rb by (intro data_term) simp_all
  have s1: "\<bar>(ts + cs) - (a * (5 / 10) + c * (3 / 10))\<bar> \<le> 8 / 2 ^ 52"
    using ts cs by linarith
  have r1: "\<bar>a * (5 / 10) + c * (3 / 10)\<bar> \<le> 1" using ra rc by (simp add: abs_if) 
  have f1: "\<bar>fl (ts + cs) - (a * (5 / 10) + c * (3 / 10))\<bar> \<le> 8 / 2 ^ 52 + 1 / 2 ^ 52"
    using s1 r1 by (intro fl_approx) simp_all
  have s2: "\<bar>(fl (ts + cs) + ds) - (a * (5 / 10) + c * (3 / 10) + (1 - b) * (2 / 10))\<bar>
      \<le> 14 / 2 ^ 52"
    using f1 ds by linarith
  have w: "weighted_viability rows = a * (5 / 10) + c * (3 / 10) + (1 - b) * (2 / 10)"
    by (simp add: weighted_viability_def a_def b_def c_def)
  have r2: "\<bar>weighted_viability rows\<bar> \<le> 1"
    using weighted_viability_range [of rows] by simp
  have "\<bar>fl (fl (ts + cs) + ds) - weighted_viability rows\<bar> \<le> 14 / 2 ^ 52 + 1 / 2 ^ 52"
    using s2 r2 unfolding w [symmetric] by (intro fl_approx) simp_all
  moreover have "overall_score rows = fl (fl (ts + cs) + ds)"
    by (simp add: overall_score_def Let_def ts_def cs_def ds_def a_def b_def c_def fraction_def)
  ultimately show ?thesis by simp
qed

lemma viability_score_facts:
  assumes "rows \<noteq> []"
  shows "\<exists>k. 0 \<le> k \<and> k \<le> 100
           \<and> calculate_overall_viability_score impl rows = fl (of_int k / 100)
           \<and> \<bar>of_int k / 100 - weighted_viability rows\<bar> \<le> 1 / 200 + 1 / 10 ^ 13"
  using assms float_round_two [OF overall_score_close [of rows], of impl]
    weighted_viability_range [of rows]
  by (simp add: calculate_overall_viability_score_def)

lemma viability_score_close:
  assumes "rows \<noteq> []"
  shows "\<bar>calculate_overall_viability_score impl rows - weighted_viability rows\<bar>
           \<le> 1 / 200 + 1 / 10 ^ 12"
    and "0 \<le> calculate_overall_viability_score impl rows"
    and "calculate_overall_viability_score impl rows \<le> 1"
proof -
  obtain k where k: "0 \<le> k" "k \<le> 100"
      "calculate_overall_viability_score impl rows = fl (of_int k / 100)"
      "\<bar>of_int k / 100 - weighted_viability rows\<bar> \<le> 1 / 200 + 1 / 10 ^ 13"
    using viability_score_facts [OF assms, of impl] by blast
  have c: "0 \<le> fl (of_int k / 100) \<and> fl (of_int k / 100) \<le> 1
         \<and> \<bar>fl (of_int k / 100) - of_int k / 100\<bar> \<le> 1 / 2 ^ 53"
    using k(1,2) by (rule fl_cent)
  show "\<bar>calculate_overall_viability_score impl rows - weighted_viability rows\<bar>
           \<le> 1 / 200 + 1 / 10 ^ 12"
    using c k(4) by (simp add: k(3) abs_if split: if_splits)
  show "0 \<le> calculate_overall_viability_score impl rows" using c by (simp add: k(3))
  show "calculate_overall_viability_score impl rows \<le> 1" using c by (simp add: k(3))
qed

lemma viability_score_at:
  assumes "rows \<noteq> []"
    and "real_of_int j / 100 - 1 / 200 + 1 / 10 ^ 12 < weighted_viability rows"
    and "weighted_viability rows < real_of_int j / 100 + 1 / 200 - 1 / 10 ^ 12"
  shows "calculate_overall_viability_score impl rows = fl (of_int j / 100)"
proof -
  obtain k where k: "calculate_overall_viability_score impl rows = fl (of_int k / 100)"
      "\<bar>of_int k / 100 - weighted_viability rows\<bar> \<le> 1 / 200 + 1 / 10 ^ 13"
    using viability_score_facts [OF assms(1), of impl] by blast
  have "real_of_int j - 1 < of_int k" "of_int k < real_of_int j + 1"
    using k(2) assms(2,3) by (simp_all add: abs_if split: if_splits)
  then have "j \<le> k \<and> k \<le> j" by (rule int_between)
  then have "k = j" by simp
  then show ?thesis by (simp add: k(1))
qed

lemma fraction_all: "xs \<noteq> [] \<Longrightarrow> list_all P xs \<Longrightarrow> fraction P xs = 1"
  by (simp add: fraction_def list_all_iff)

lemma fraction_none: "list_all (\<lambda>x. \<not> P x) xs \<Longrightarrow> fraction P xs = 0"
  by (simp add: fraction_def list_all_iff)

lemma three_airlines_weighted: "weighted_viability three_airlines = 11 / 30"
  by (simp add: weighted_viability_def fraction_def three_airlines_def new_policy_def
      allows_transfer_def reasonable_cost_def)

lemma three_airlines_score:
  "calculate_overall_viability_score impl three_airlines = fl (37 / 100)"
proof -
  have "calculate_overall_viability_score impl three_airlines = fl (of_int 37 / 100)"
    by (rule viability_score_at) (simp_all add: three_airlines_weighted, simp add: three_airlines_def)
  then show ?thesis by simp
qed

lemma fl_37: "\<bar>fl (37 / 100) - 37 / 100\<bar> \<le> 1 / 2 ^ 53"
  using fl_cent [of 37] by simp

text \<open>
  The rounding of doubles decides a tie of the exact sum. For four airlines of which
  three allow the transfer the weighted sum is exactly 0.575; the sum of the doubles is
  just below it, and both implementations of \<open>round\<close> give the double of 0.57.
\<close>

lemma fl_3_4: "fl (3 / 4) = 3 / 4"
  by (subst fl_eval [of "-1"]) (simp_all add: round_half_even_def)

lemma fl_1_2: "fl (1 / 2) = 1 / 2"
  by (subst fl_eval [of "-1"]) (simp_all add: round_half_even_def)

lemma fl_3_8: "fl (3 / 8) = 3 / 8"
  by (subst fl_eval [of "-2"]) (simp_all add: round_half_even_def)

lemma fl_1_5: "fl (1 / 5) = 3602879701896397 / 18014398509481984"
  by (subst fl_eval [of "-3"]) (simp_all add: round_half_even_def)

lemma fl_fl_1_5:
  "fl (3602879701896397 / 18014398509481984) = 3602879701896397 / 18014398509481984"
  by (subst fl_eval [of "-3"]) (simp_all add: round_half_even_def)

lemma fl_sum_575:
  "fl (10358279142952141 / 18014398509481984) = 2589569785738035 / 4503599627370496"
  by (subst fl_eval [of "-1"]) (simp_all add: round_half_even_def)

lemma fl_57_5:
  "fl (64739244643450875 / 1125899906842624) = 8092405580431359 / 140737488355328"
  by (subst fl_eval [of "5"]) (simp_all add: round_half_even_def)

lemma four_airlines_sum:
  "overall_score four_airlines = 2589569785738035 / 4503599627370496"
  by (simp add: overall_score_def four_airlines_def new_policy_def allows_transfer_def
      reasonable_cost_def fl_zero fl_one fl_3_4 fl_1_2 fl_3_8 fl_1_5 fl_fl_1_5 fl_sum_575)

lemma four_airlines_score:
  "calculate_overall_viability_score Builtin four_airlines = fl (57 / 100)"
  "calculate_overall_viability_score Numpy four_airlines = fl (57 / 100)"
  by (simp_all add: calculate_overall_viability_score_def float_round_def four_airlines_sum
      fl_57_5 round_half_even_def) (simp_all add: four_airlines_def)

lemma four_airlines_weighted: "weighted_viability four_airlines = 575 / 1000"
  by (simp add: weighted_viability_def fraction_def four_airlines_def new_policy_def
      allows_transfer_def reasonable_cost_def)

text \<open>
  C3, as stated, fails: the overall viability score is not equal to the weighted sum
  0.5 * (fraction allowing transfer) + 0.3 * (fraction with acceptable cost)
  + 0.2 * (1 - fraction flagged). For three airlines of which one allows the transfer,
  none has a known cost and none is flagged, the sum is 11/30 and the score is the
  double of 0.37, with either implementation of \<open>round\<close>.
\<close>

theorem viability_score_not_weighted_sum:
  "calculate_overall_viability_score Builtin three_airlines = fl (37 / 100)
   \<and> calculate_overall_viability_score Numpy three_airlines = fl (37 / 100)
   \<and> \<bar>fl (37 / 100) - 37 / 100\<bar> \<le> 1 / 2 ^ 53
   \<and> weighted_viability three_airlines = 11 / 30
   \<and> calculate_overall_viability_score Builtin three_airlines \<noteq> weighted_viability three_airlines
   \<and> calculate_overall_viability_score Numpy three_airlines \<noteq> weighted_viability three_airlines"
  using fl_37 by (simp add: three_airlines_score three_airlines_weighted abs_if split: if_splits)

text \<open>
  C3, amended. For every non-empty set of policy records the overall viability score is
  the weighted sum rounded to 2 decimals: it is the double of \<open>k/100\<close> for an integer
  \<open>k\<close> from 0 to 100 with \<open>k/100\<close> within 0.005 of the sum, up to the error of the double
  arithmetic, which is below \<open>10^-12\<close>. For the empty set it is 0. It always lies in
  [0, 1], and it is exactly 1 when all three components are maximal at once. Where the
  exact sum is a tie the doubles decide: four airlines of which three allow the
  transfer have the sum 0.575 and the score 0.57. All this holds with either
  implementation of \<open>round\<close>.
\<close>

theorem viability_score_rounded:
  "(rows \<noteq> [] \<longrightarrow>
      (\<exists>k. 0 \<le> k \<and> k \<le> 100
          \<and> calculate_overall_viability_score impl rows = fl (of_int k / 100)
          \<and> \<bar>of_int k / 100 - weighted_viability rows\<bar> \<le> 1 / 200 + 1 / 10 ^ 13)
      \<and> \<bar>calculate_overall_viability_score impl rows - weighted_viability rows\<bar>
          \<le> 1 / 200 + 1 / 10 ^ 12)
   \<and> calculate_overall_viability_score impl [] = 0
   \<and> 0 \<le> calculate_overall_viability_score impl rows
   \<and> calculate_overall_viability_score impl rows \<le> 1
   \<and> (rows \<noteq> [] \<and> list_all allows_transfer rows \<and> list_all reasonable_cost rows
        \<and> list_all (\<lambda>p. \<not> requires_manual_review p) rows
      \<longrightarrow> calculate_overall_viability_score impl rows = 1)
   \<and> weighted_viability four_airlines = 575 / 1000
   \<and> calculate_overall_viability_score impl four_airlines = fl (57 / 100)"
proof -
  have eq: "rows \<noteq> [] \<longrightarrow>
      (\<exists>k. 0 \<le> k \<and> k \<le> 100
          \<and> calculate_overall_viability_score impl rows = fl (of_int k / 100)
          \<and> \<bar>of_int k / 100 - weighted_viability rows\<bar> \<le> 1 / 200 + 1 / 10 ^ 13)
      \<and> \<bar>calculate_overall_viability_score impl rows - weighted_viability rows\<bar>
          \<le> 1 / 200 + 1 / 10 ^ 12"
    using viability_score_facts [of rows impl] viability_score_close(1) [of rows impl] by blast
  have empty: "calculate_overall_viability_score impl [] = 0"
    by (simp add: calculate_overall_viability_score_def)
  have range: "0 \<le> calculate_overall_viability_score impl rows
      \<and> calculate_overall_viability_score impl rows \<le> 1"
  proof (cases "rows = []")
    case True
    then show ?thesis by (simp add: empty)
  next
    case False
    then show ?thesis using viability_score_close(2,3) [of rows impl] by blast
  qed
  have top: "rows \<noteq> [] \<and> list_all allows_transfer rows \<and> list_all reasonable_cost rows
        \<and> list_all (\<lambda>p. \<not> requires_manual_review p) rows
      \<longrightarrow> calculate_overall_viability_score impl rows = 1"
  proof
    assume h: "rows \<noteq> [] \<and> list_all allows_transfer rows \<and> list_all reasonable_cost rows
        \<and> list_all (\<lambda>p. \<not> requires_manual_review p) rows"
    then have w: "weighted_viability rows = 1"
      by (simp add: weighted_viability_def fraction_all fraction_none)
    have "calculate_overall_viability_score impl rows = fl (of_int 100 / 100)"
      using h by (intro viability_score_at) (simp_all add: w)
    then show "calculate_overall_viability_score impl rows = 1" by (simp add: fl_one)
  qed
  have tie: "calculate_overall_viability_score impl four_airlines = fl (57 / 100)"
    by (cases impl) (simp_all add: four_airlines_score)
  from eq empty range top four_airlines_weighted tie show ?thesis by blast
qed

theorem viability_score_rounded_witness:
  "three_airlines \<noteq> []
   \<and> \<bar>calculate_overall_viability_score Numpy three_airlines - weighted_viability three_airlines\<bar>
        \<le> 1 / 200 + 1 / 10 ^ 12
   \<and> [(new_policy ''Avianca'' ''AV'' 0)\<lparr>allows_transfer_to_third_party := Some True,
          cost_name_change_domestic_cop := Some 150000\<rparr>] \<noteq> []
   \<and> calculate_overall_viability_score Numpy
        [(new_policy ''Avianca'' ''AV'' 0)\<lparr>allows_transfer_to_third_party := Some True,
          cost_name_change_domestic_cop := Some 150000\<rparr>] = 1"
proof -
  have a: "three_airlines \<noteq> []"
    by (simp add: three_airlines_def)
  have b: "list_all allows_transfer
        [(new_policy ''Avianca'' ''AV'' 0)\<lparr>allows_transfer_to_third_party := Some True,
          cost_name_change_domestic_cop := Some 150000\<rparr>]"
    by (simp add: allows_transfer_def)
  have c: "list_all reasonable_cost
        [(new_policy ''Avianca'' ''AV'' 0)\<lparr>allows_transfer_to_third_party := Some True,
          cost_name_change_domestic_cop := Some 150000\<rparr>]"
    by (simp add: reasonable_cost_def max_acceptable_cost_cop_def)
  have d: "list_all (\<lambda>p. \<not> requires_manual_review p)
        [(new_policy ''Avianca'' ''AV'' 0)\<lparr>allows_transfer_to_third_party := Some True,
          cost_name_change_domestic_cop := Some 150000\<rparr>]"
    by (simp add: new_policy_def)
  show ?thesis
    using viability_score_rounded [of three_airlines Numpy]
      viability_score_rounded [of "[(new_policy ''Avianca'' ''AV'' 0)\<lparr>allows_transfer_to_third_party := Some True,
          cost_name_change_domestic_cop := Some 150000\<rparr>]" Numpy] a b c d
    by simp
qed


section \<open>Properties of validation\<close>

text \<open>
  C10. Every range validator accepts an absent value: \<open>validate_cop_amount\<close>,
  \<open>validate_usd_amount\<close> and \<open>validate_percentage\<close> return true on null, and
  \<open>validate_url\<close> returns true on null and on the empty string. So a record whose
  validated cost, percentage and URL fields are all absent gets no range or URL error:
  its only possible error, and the only way it is flagged for review, is the rule of
  more than 3 missing critical fields (a flag that the extraction itself has set stays).
\<close>

theorem validators_accept_absent:
  "validate_cop_amount None \<and> validate_usd_amount None \<and> validate_percentage None
   \<and> validate_url None \<and> validate_url (Some [])
   \<and> (cost_name_change_domestic_cop p = None \<and> cost_name_change_usd p = None
        \<and> refund_percentage p = None
        \<and> (terms_url p = None \<or> terms_url p = Some [])
        \<and> (source_url p = None \<or> source_url p = Some [])
      \<longrightarrow> errors (validate_extracted_data p) =
            (if length (get_missing_fields p) > 3
             then [''Faltan campos cr'' @ [CHR 0xED] @ ''ticos: ''
                   @ join '', '' (get_missing_fields p)]
             else [])
          \<and> (is_valid (validate_extracted_data p) \<longleftrightarrow> \<not> length (get_missing_fields p) > 3)
          \<and> (requires_manual_review (apply_validation p)
               \<longleftrightarrow> requires_manual_review p \<or> length (get_missing_fields p) > 3))"
  by (auto simp add: validate_cop_amount_def validate_usd_amount_def validate_percentage_def
      validate_url_def validate_extracted_data_def apply_validation_def Let_def)

theorem validators_accept_absent_witness:
  "cost_name_change_domestic_cop (new_policy ''Avianca'' ''AV'' 0) = None
   \<and> cost_name_change_usd (new_policy ''Avianca'' ''AV'' 0) = None
   \<and> refund_percentage (new_policy ''Avianca'' ''AV'' 0) = None
   \<and> terms_url (new_policy ''Avianca'' ''AV'' 0) = None
   \<and> source_url (new_policy ''Avianca'' ''AV'' 0) = None
   \<and> length (get_missing_fields (new_policy ''Avianca'' ''AV'' 0)) = 4
   \<and> \<not> is_valid (validate_extracted_data (new_policy ''Avianca'' ''AV'' 0))
   \<and> length (get_missing_fields
        ((new_policy ''Avianca'' ''AV'' 0)\<lparr>allows_full_name_change := Some True,
            source_url := Some []\<rparr>)) = 3
   \<and> errors (validate_extracted_data
        ((new_policy ''Avianca'' ''AV'' 0)\<lparr>allows_full_name_change := Some True,
            source_url := Some []\<rparr>)) = []
   \<and> is_valid (validate_extracted_data
        ((new_policy ''Avianca'' ''AV'' 0)\<lparr>allows_full_name_change := Some True,
            source_url := Some []\<rparr>))"
  using validators_accept_absent [of "new_policy ''Avianca'' ''AV'' 0"]
    validators_accept_absent [of "(new_policy ''Avianca'' ''AV'' 0)\<lparr>allows_full_name_change := Some True,
            source_url := Some []\<rparr>"]
  by (simp add: new_policy_def get_missing_fields_def)


section \<open>Properties of the policy store\<close>

lemma filter_other_codes_length:
  "distinct (map f xs) \<Longrightarrow> c \<in> set (map f xs) \<Longrightarrow>
   Suc (length (filter (\<lambda>r. f r \<noteq> c) xs)) = length xs"
proof (induction xs)
  case Nil
  then show ?case by simp
next
  case (Cons x xs)
  show ?case
  proof (cases "f x = c")
    case True
    with Cons.prems have "c \<notin> set (map f xs)" by auto
    then have "filter (\<lambda>r. f r \<noteq> c) xs = xs" by (auto simp add: filter_id_conv)
    with True show ?thesis by simp
  next
    case False
    with Cons show ?thesis by auto
  qed
qed

lemma filter_ordered:
  "filter P (order_by_scraped_at_desc t) = order_by_scraped_at_desc (filter P t)"
  by (simp add: order_by_scraped_at_desc_def rev_filter [symmetric] filter_sort)

lemma ordered_single: "order_by_scraped_at_desc [r] = [r]"
  by (simp add: order_by_scraped_at_desc_def)

lemma insert_policy_rows:
  "filter (\<lambda>r. airline_code r = airline_code p) (snd (insert_policy False p t))
     = [p\<lparr>confidence_score := 0\<rparr>]"
  by (auto simp add: insert_policy_def filter_empty_conv)

text \<open>
  C8. An upsert replaces the row of its airline code: after every successful
  \<open>insert_policy\<close> the store has exactly one row with that code, and it is the new
  policy; where the code was already stored, the number of rows does not change. The
  invariant of one row per code holds for the empty store and is preserved by every
  operation that writes the store (upsert, delete by code, delete all), whether it
  succeeds or fails.
\<close>

theorem upsert_one_row_per_code:
  "(insert_policy db_error p t = (True, t') \<longrightarrow>
      rows_with_code (airline_code p) t' = 1
      \<and> get_policy_by_code False (airline_code p) t' = Some (p\<lparr>confidence_score := 0\<rparr>))
   \<and> (one_row_per_code t \<and> rows_with_code (airline_code p) t = 1 \<longrightarrow>
        length (snd (insert_policy False p t)) = length t)
   \<and> (one_row_per_code t \<longrightarrow>
        one_row_per_code (snd (insert_policy db_error p t))
        \<and> one_row_per_code (snd (delete_policy db_error code t))
        \<and> one_row_per_code (snd (clear_all_policies db_error t)))
   \<and> one_row_per_code []"
proof -
  have one: "insert_policy db_error p t = (True, t') \<longrightarrow>
      rows_with_code (airline_code p) t' = 1
      \<and> get_policy_by_code False (airline_code p) t' = Some (p\<lparr>confidence_score := 0\<rparr>)"
  proof
    assume h: "insert_policy db_error p t = (True, t')"
    then have e: "db_error = False" by (auto simp add: insert_policy_def split: if_splits)
    with h have t': "t' = snd (insert_policy False p t)" by simp
    have rows: "filter (\<lambda>r. airline_code r = airline_code p) t' = [p\<lparr>confidence_score := 0\<rparr>]"
      by (simp only: t' insert_policy_rows)
    show "rows_with_code (airline_code p) t' = 1
      \<and> get_policy_by_code False (airline_code p) t' = Some (p\<lparr>confidence_score := 0\<rparr>)"
      by (simp add: rows_with_code_def get_policy_by_code_def filter_ordered rows ordered_single)
  qed
  have same: "one_row_per_code t \<and> rows_with_code (airline_code p) t = 1 \<longrightarrow>
        length (snd (insert_policy False p t)) = length t"
  proof
    assume h: "one_row_per_code t \<and> rows_with_code (airline_code p) t = 1"
    then have "filter (\<lambda>r. airline_code r = airline_code p) t \<noteq> []"
      by (auto simp add: rows_with_code_def)
    then have "airline_code p \<in> set (map airline_code t)"
      by (auto simp add: filter_empty_conv intro: rev_image_eqI)
    with h have "Suc (length (filter (\<lambda>r. airline_code r \<noteq> airline_code p) t)) = length t"
      by (intro filter_other_codes_length) (simp_all add: one_row_per_code_def)
    then show "length (snd (insert_policy False p t)) = length t"
      by (simp add: insert_policy_def)
  qed
  have inv: "one_row_per_code t \<longrightarrow>
        one_row_per_code (snd (insert_policy db_error p t))
        \<and> one_row_per_code (snd (delete_policy db_error code t))
        \<and> one_row_per_code (snd (clear_all_policies db_error t))"
    by (auto simp add: insert_policy_def delete_policy_def clear_all_policies_def
        one_row_per_code_def distinct_map_filter)
  have init: "one_row_per_code []"
    by (simp add: one_row_per_code_def)
  from one same inv init show ?thesis by blast
qed

theorem upsert_one_row_per_code_witness:
  "one_row_per_code two_airlines
   \<and> rows_with_code ''AV'' two_airlines = 1
   \<and> insert_policy False ((new_policy ''Avianca'' ''AV'' 3)\<lparr>allows_transfer_to_third_party := Some True\<rparr>)
        two_airlines
      = (True, [new_policy ''LATAM'' ''LA'' 2,
                (new_policy ''Avianca'' ''AV'' 3)\<lparr>allows_transfer_to_third_party := Some True\<rparr>])
   \<and> rows_with_code ''AV'' [new_policy ''LATAM'' ''LA'' 2,
                (new_policy ''Avianca'' ''AV'' 3)\<lparr>allows_transfer_to_third_party := Some True\<rparr>] = 1
   \<and> one_row_per_code [new_policy ''LATAM'' ''LA'' 2,
                (new_policy ''Avianca'' ''AV'' 3)\<lparr>allows_transfer_to_third_party := Some True\<rparr>]"
proof -
  have a: "one_row_per_code two_airlines"
    by (simp add: one_row_per_code_def two_airlines_def new_policy_def)
  have b: "rows_with_code ''AV'' two_airlines = 1"
    by (simp add: rows_with_code_def two_airlines_def new_policy_def)
  have c: "insert_policy False ((new_policy ''Avianca'' ''AV'' 3)\<lparr>allows_transfer_to_third_party := Some True\<rparr>)
        two_airlines
      = (True, [new_policy ''LATAM'' ''LA'' 2,
                (new_policy ''Avianca'' ''AV'' 3)\<lparr>allows_transfer_to_third_party := Some True\<rparr>])"
    by (simp add: insert_policy_def two_airlines_def new_policy_def)
  have d: "airline_code ((new_policy ''Avianca'' ''AV'' 3)\<lparr>allows_transfer_to_third_party := Some True\<rparr>) = ''AV''"
    by (simp add: new_policy_def)
  show ?thesis
    using upsert_one_row_per_code [of False
        "(new_policy ''Avianca'' ''AV'' 3)\<lparr>allows_transfer_to_third_party := Some True\<rparr>"
        two_airlines
        "[new_policy ''LATAM'' ''LA'' 2,
          (new_policy ''Avianca'' ''AV'' 3)\<lparr>allows_transfer_to_third_party := Some True\<rparr>]"]
      a b c d
    by simp
qed


section \<open>Properties of the viability report\<close>

lemma length_ordered: "length (order_by_scraped_at_desc t) = length t"
  by (simp add: order_by_scraped_at_desc_def)

lemma market_coverage_eq:
  "rows \<noteq> [] \<Longrightarrow>
   market_coverage rows
     = fl (fl (real (length (filter viable_mask rows)) / real (length rows)) * 100)"
  by (simp add: market_coverage_def)

lemma market_coverage_close:
  assumes "rows \<noteq> []"
  shows "\<bar>market_coverage rows
           - 100 * real (length (filter viable_mask rows)) / real (length rows)\<bar>
         \<le> 1 / 10 ^ 12"
proof -
  define a where "a = real (length (filter viable_mask rows)) / real (length rows)"
  have ra: "0 \<le> a" "a \<le> 1"
    using fraction_range [of viable_mask rows] by (simp_all add: a_def fraction_def)
  have 1: "\<bar>fl a - a\<bar> \<le> 1 / 2 ^ 52" using ra by (intro fl_small) simp
  then have 2: "\<bar>fl a * 100 - a * 100\<bar> \<le> 100 / 2 ^ 52" by (simp add: abs_if split: if_splits)
  have b: "\<bar>fl a * 100\<bar> \<le> 101" using 2 ra by (simp add: abs_if split: if_splits)
  have "\<bar>fl (fl a * 100) - fl a * 100\<bar> \<le> \<bar>fl a * 100\<bar> / 2 ^ 53" by (rule fl_error)
  moreover have "\<bar>fl a * 100\<bar> / 2 ^ 53 \<le> 101 / 2 ^ 53"
    using b by (intro divide_right_mono) simp_all
  ultimately have 3: "\<bar>fl (fl a * 100) - fl a * 100\<bar> \<le> 101 / 2 ^ 53" by linarith
  have "\<bar>fl (fl a * 100) - a * 100\<bar> \<le> 1 / 10 ^ 12"
    using 2 3 by (simp add: abs_if split: if_splits)
  then show ?thesis using assms by (simp add: market_coverage_eq a_def mult.commute)
qed

lemma market_coverage_ordered:
  "market_coverage (order_by_scraped_at_desc t) = market_coverage t"
  by (simp add: market_coverage_def filter_ordered length_ordered)

lemma report_fresh:
  "t \<noteq> [] \<Longrightarrow>
   generate_viability_report impl False e2 t \<lparr>df = None\<rparr>
     = (Inr (build_report impl (order_by_scraped_at_desc t)),
        \<lparr>df = Some (order_by_scraped_at_desc t)\<rparr>)"
proof -
  assume t: "t \<noteq> []"
  then have "order_by_scraped_at_desc t \<noteq> []"
    using length_ordered [of t] by (metis length_0_conv)
  then obtain r rs where rs: "order_by_scraped_at_desc t = r # rs"
    by (cases "order_by_scraped_at_desc t") auto
  show ?thesis
    by (simp add: generate_viability_report_def frame_missing_def load_data_def
        get_all_policies_def rs)
qed

lemma report_again:
  "generate_viability_report impl e1 e2 t a = (Inr r, a') \<Longrightarrow>
   generate_viability_report impl e3 e4 t a' = (Inr r, a')"
  by (auto simp add: generate_viability_report_def Let_def frame_missing_def
      split: option.splits list.splits)

lemma fl_429: "\<bar>fl (429 / 10) - 429 / 10\<bar> \<le> 1 / 10 ^ 14"
proof -
  have "\<bar>fl (429 / 10) - 429 / 10\<bar> \<le> \<bar>429 / 10\<bar> / 2 ^ 53" by (rule fl_error)
  then show ?thesis by simp
qed

lemma three_of_seven:
  assumes "length rows = 7"
    and "length (filter allows_transfer rows) = 3"
    and "list_all (\<lambda>p. allows_transfer p \<or> allows_full_name_change p \<noteq> Some True) rows"
  shows "market_coverage rows = fl (fl (3 / 7) * 100)"
    and "\<bar>market_coverage rows - 300 / 7\<bar> \<le> 1 / 10 ^ 12"
    and "float_round Builtin (market_coverage rows) 1 = fl (429 / 10)"
proof -
  have ne: "rows \<noteq> []" using assms(1) by auto
  have f: "filter viable_mask rows = filter allows_transfer rows"
    using assms(3)
    by (intro filter_cong) (auto simp add: list_all_iff viable_mask_def allows_transfer_def)
  show "market_coverage rows = fl (fl (3 / 7) * 100)"
    using assms(1,2) by (simp add: market_coverage_eq [OF ne] f)
  show c: "\<bar>market_coverage rows - 300 / 7\<bar> \<le> 1 / 10 ^ 12"
    using market_coverage_close [OF ne] assms(1,2) by (simp add: f)
  have "round_half_even (market_coverage rows * 10) = 429"
    using c by (intro round_half_even_eq) (simp_all add: abs_if split: if_splits)
  then show "float_round Builtin (market_coverage rows) 1 = fl (429 / 10)"
    by (simp add: float_round_def)
qed

lemma seven_airlines_coverage: "market_coverage seven_airlines = 100"
  by (simp add: market_coverage_def seven_airlines_def viable_mask_def new_policy_def
      fl_one fl_hundred)

lemma round_hundred: "float_round Builtin 100 1 = 100"
  using round_half_even_of_int [of 1000] by (simp add: float_round_def fl_hundred)

text \<open>
  Here too the doubles decide a tie: for 23 viable records of 80 the exact coverage is
  28.75, the computed one lies just below it, and the report states the double of 28.7.
\<close>

lemma fl_23_80: "fl (23 / 80) = 2589569785738035 / 9007199254740992"
  by (subst fl_eval [of "-2"]) (simp_all add: round_half_even_def)

lemma fl_28_75:
  "fl (64739244643450875 / 2251799813685248) = 8092405580431359 / 281474976710656"
  by (subst fl_eval [of "4"]) (simp_all add: round_half_even_def)

lemma eighty_airlines_coverage:
  "market_coverage eighty_airlines = 8092405580431359 / 281474976710656"
  by (simp add: market_coverage_def eighty_airlines_def viable_mask_def new_policy_def
      fl_23_80 fl_28_75)

lemma eighty_airlines_percentage:
  "float_round Builtin (market_coverage eighty_airlines) 1 = fl (287 / 10)"
  by (simp add: float_round_def eighty_airlines_coverage round_half_even_def)

text \<open>
  C4, as stated, fails on its scenario: seven records of which exactly three have
  transfer-allowed true and the other four have it false or null can still all be
  viable, since a record also counts when full-name-change-allowed is true. Then the
  coverage is 100 percent and the band is "viable".
\<close>

theorem market_coverage_scenario_violated:
  "length seven_airlines = 7
   \<and> length (filter allows_transfer seven_airlines) = 3
   \<and> market_coverage seven_airlines = 100
   \<and> map_sum id (\<lambda>r. (market_coverage_percentage r, get_viability_status r))
        (fst (generate_viability_report Numpy False False seven_airlines \<lparr>df = None\<rparr>))
      = Inr (100, VIABLE)"
proof -
  have a: "length seven_airlines = 7" by (simp add: seven_airlines_def)
  have b: "length (filter allows_transfer seven_airlines) = 3"
    by (simp add: seven_airlines_def allows_transfer_def new_policy_def)
  have ne: "seven_airlines \<noteq> []" by (simp add: seven_airlines_def)
  have d: "market_coverage_percentage
             (build_report Numpy (order_by_scraped_at_desc seven_airlines)) = 100"
    using round_hundred
    by (simp add: build_report_def Let_def market_coverage_ordered seven_airlines_coverage)
  show ?thesis
    by (simp add: a b seven_airlines_coverage report_fresh [OF ne] get_viability_status_def d)
qed

text \<open>
  C4, amended. For every non-empty set of policy records the market coverage is 100
  times the number of records with transfer-allowed true or full-name-change-allowed
  true, divided by the total number, as the double arithmetic of the code evaluates
  it (within \<open>10^-12\<close> of the exact value); a fresh analyzer on a non-empty store
  computes it from the stored records, in whatever order they are read. Generating the
  report again on unchanged data gives the same report. For 7 records of which exactly
  3 have transfer-allowed true and none of the others has full-name-change-allowed
  true, the coverage is 300/7 up to that error, the report states the double of 42.9,
  and the band is "viable with restrictions" under the default thresholds. (What the
  report states is the coverage rounded to one decimal by the built-in \<open>round\<close>; for 23
  viable records of 80 that is 28.7.)
\<close>

theorem market_coverage_report:
  "(rows \<noteq> [] \<longrightarrow>
      market_coverage rows
        = fl (fl (real (length (filter viable_mask rows)) / real (length rows)) * 100)
      \<and> \<bar>market_coverage rows
           - 100 * real (length (filter viable_mask rows)) / real (length rows)\<bar>
         \<le> 1 / 10 ^ 12)
   \<and> (t \<noteq> [] \<longrightarrow>
        fst (generate_viability_report impl False e2 t \<lparr>df = None\<rparr>)
          = Inr (build_report impl (order_by_scraped_at_desc t))
        \<and> market_coverage (order_by_scraped_at_desc t) = market_coverage t)
   \<and> (generate_viability_report impl e1 e2 t a = (Inr r, a') \<longrightarrow>
        generate_viability_report impl e3 e4 t a' = (Inr r, a'))
   \<and> (length rows = 7 \<and> length (filter allows_transfer rows) = 3
        \<and> list_all (\<lambda>p. allows_transfer p \<or> allows_full_name_change p \<noteq> Some True) rows
      \<longrightarrow> \<bar>market_coverage rows - 300 / 7\<bar> \<le> 1 / 10 ^ 12
          \<and> market_coverage_percentage (build_report impl rows) = fl (429 / 10)
          \<and> \<bar>fl (429 / 10) - 429 / 10\<bar> \<le> 1 / 10 ^ 14
          \<and> get_viability_status (build_report impl rows) = VIABLE_CON_RESTRICCIONES
          \<and> conclusion (build_report impl rows) = VIABLE_CON_RESTRICCIONES)
   \<and> market_coverage_percentage (build_report impl eighty_airlines) = fl (287 / 10)"
proof -
  have p1: "rows \<noteq> [] \<longrightarrow>
      market_coverage rows
        = fl (fl (real (length (filter viable_mask rows)) / real (length rows)) * 100)
      \<and> \<bar>market_coverage rows
           - 100 * real (length (filter viable_mask rows)) / real (length rows)\<bar>
         \<le> 1 / 10 ^ 12"
    using market_coverage_eq [of rows] market_coverage_close [of rows] by blast
  have p2: "t \<noteq> [] \<longrightarrow>
        fst (generate_viability_report impl False e2 t \<lparr>df = None\<rparr>)
          = Inr (build_report impl (order_by_scraped_at_desc t))
        \<and> market_coverage (order_by_scraped_at_desc t) = market_coverage t"
    by (simp add: report_fresh market_coverage_ordered)
  have p3: "generate_viability_report impl e1 e2 t a = (Inr r, a') \<longrightarrow>
        generate_viability_report impl e3 e4 t a' = (Inr r, a')"
    using report_again by blast
  have p4: "length rows = 7 \<and> length (filter allows_transfer rows) = 3
        \<and> list_all (\<lambda>p. allows_transfer p \<or> allows_full_name_change p \<noteq> Some True) rows
      \<longrightarrow> \<bar>market_coverage rows - 300 / 7\<bar> \<le> 1 / 10 ^ 12
          \<and> market_coverage_percentage (build_report impl rows) = fl (429 / 10)
          \<and> \<bar>fl (429 / 10) - 429 / 10\<bar> \<le> 1 / 10 ^ 14
          \<and> get_viability_status (build_report impl rows) = VIABLE_CON_RESTRICCIONES
          \<and> conclusion (build_report impl rows) = VIABLE_CON_RESTRICCIONES"
  proof
    assume h: "length rows = 7 \<and> length (filter allows_transfer rows) = 3
        \<and> list_all (\<lambda>p. allows_transfer p \<or> allows_full_name_change p \<noteq> Some True) rows"
    then have c: "\<bar>market_coverage rows - 300 / 7\<bar> \<le> 1 / 10 ^ 12"
      and rd: "float_round Builtin (market_coverage rows) 1 = fl (429 / 10)"
      using three_of_seven by blast+
    have m: "market_coverage_percentage (build_report impl rows) = fl (429 / 10)"
      using rd by (simp add: build_report_def Let_def)
    have s: "get_viability_status (build_report impl rows) = VIABLE_CON_RESTRICCIONES"
      using fl_429 by (simp add: get_viability_status_def m abs_if split: if_splits)
    have k: "conclusion (build_report impl rows) = VIABLE_CON_RESTRICCIONES"
      using c by (simp add: build_report_def Let_def generate_conclusion_def
          market_coverage_ideal_def market_coverage_minimum_def abs_if split: if_splits)
    from c m s k fl_429 show "\<bar>market_coverage rows - 300 / 7\<bar> \<le> 1 / 10 ^ 12
          \<and> market_coverage_percentage (build_report impl rows) = fl (429 / 10)
          \<and> \<bar>fl (429 / 10) - 429 / 10\<bar> \<le> 1 / 10 ^ 14
          \<and> get_viability_status (build_report impl rows) = VIABLE_CON_RESTRICCIONES
          \<and> conclusion (build_report impl rows) = VIABLE_CON_RESTRICCIONES" by blast
  qed
  have p5: "market_coverage_percentage (build_report impl eighty_airlines) = fl (287 / 10)"
    using eighty_airlines_percentage by (simp add: build_report_def Let_def)
  from p1 p2 p3 p4 p5 show ?thesis by blast
qed

theorem market_coverage_report_witness:
  "seven_airlines_three_viable \<noteq> []
   \<and> length seven_airlines_three_viable = 7
   \<and> length (filter allows_transfer seven_airlines_three_viable) = 3
   \<and> list_all (\<lambda>p. allows_transfer p \<or> allows_full_name_change p \<noteq> Some True)
        seven_airlines_three_viable
   \<and> market_coverage_percentage (build_report Numpy seven_airlines_three_viable) = fl (429 / 10)
   \<and> get_viability_status (build_report Numpy seven_airlines_three_viable)
      = VIABLE_CON_RESTRICCIONES
   \<and> generate_viability_report Numpy False False seven_airlines_three_viable \<lparr>df = None\<rparr>
      = (Inr (build_report Numpy (order_by_scraped_at_desc seven_airlines_three_viable)),
         \<lparr>df = Some (order_by_scraped_at_desc seven_airlines_three_viable)\<rparr>)
   \<and> generate_viability_report Numpy True True seven_airlines_three_viable
        \<lparr>df = Some (order_by_scraped_at_desc seven_airlines_three_viable)\<rparr>
      = (Inr (build_report Numpy (order_by_scraped_at_desc seven_airlines_three_viable)),
         \<lparr>df = Some (order_by_scraped_at_desc seven_airlines_three_viable)\<rparr>)"
proof -
  have a: "seven_airlines_three_viable \<noteq> []" by (simp add: seven_airlines_three_viable_def)
  have b: "length seven_airlines_three_viable = 7" by (simp add: seven_airlines_three_viable_def)
  have c: "length (filter allows_transfer seven_airlines_three_viable) = 3"
    by (simp add: seven_airlines_three_viable_def allows_transfer_def new_policy_def)
  have d: "list_all (\<lambda>p. allows_transfer p \<or> allows_full_name_change p \<noteq> Some True)
        seven_airlines_three_viable"
    by (simp add: seven_airlines_three_viable_def allows_transfer_def new_policy_def)
  have e: "generate_viability_report Numpy False False seven_airlines_three_viable \<lparr>df = None\<rparr>
      = (Inr (build_report Numpy (order_by_scraped_at_desc seven_airlines_three_viable)),
         \<lparr>df = Some (order_by_scraped_at_desc seven_airlines_three_viable)\<rparr>)"
    using a by (rule report_fresh)
  show ?thesis
    using market_coverage_report [where rows = seven_airlines_three_viable
        and t = seven_airlines_three_viable and impl = Numpy
        and ?e1.0 = False and ?e2.0 = False
        and a = "\<lparr>df = None\<rparr>"
        and r = "build_report Numpy (order_by_scraped_at_desc seven_airlines_three_viable)"
        and a' = "\<lparr>df = Some (order_by_scraped_at_desc seven_airlines_three_viable)\<rparr>"
        and ?e3.0 = True and ?e4.0 = True]
      a b c d e
    by simp
qed


section \<open>Properties of the scrape operation\<close>

lemma fetch_attempts_exhausted:
  "list_all (\<lambda>i. is_request_exception (net i)) as \<Longrightarrow> fetch_attempts m net as = Inr None"
  by (induction as) (auto simp add: is_request_exception_def split: attempt.splits)

lemma scrape_try_raises:
  "fst (scrape_try self m net pe ex db_error t0 t1 t) = Inl e \<Longrightarrow>
   snd (scrape_try self m net pe ex db_error t0 t1 t) = t"
  by (auto simp add: scrape_try_def Let_def
      split: sum.splits option.splits if_splits prod.splits)

lemma scrape_try_returns:
  "fst (scrape_try self m net pe ex db_error t0 t1 t) = Inr r \<Longrightarrow> success r"
  by (auto simp add: scrape_try_def Let_def
      split: sum.splits option.splits if_splits prod.splits)

lemma scrape_except:
  "fst (scrape_try self m net pe ex db_error t0 t1 t) = Inl e \<Longrightarrow>
   scrape self m net pe ex db_error t0 t1 t
     = (\<lparr> result_airline_name = scraper_airline_name self, success = False,
          policy = None, error_message = Some e, warnings = [],
          execution_time_seconds = t1 - t0 \<rparr>, t)"
proof -
  assume h: "fst (scrape_try self m net pe ex db_error t0 t1 t) = Inl e"
  then have "snd (scrape_try self m net pe ex db_error t0 t1 t) = t"
    by (rule scrape_try_raises)
  with h have "scrape_try self m net pe ex db_error t0 t1 t = (Inl e, t)"
    by (metis prod.collapse)
  then show ?thesis by (simp add: scrape_def)
qed

lemma bind_parameters_reviewed:
  "bind_parameters ((apply_validation p)\<lparr>confidence_score := c\<rparr>) = bind_parameters p"
  by (simp add: bind_parameters_def apply_validation_def Let_def)

text \<open>
  C9. When the scrape fails overall it returns a result, the exception does not leave
  the operation, and the store is as before. A fetch whose attempts all end in a
  request exception returns no page. With no page or an empty page the result has
  \<open>success = False\<close>, the message that no content was obtained and the elapsed time.
  With any other exception of the fetch, an exception while the page is parsed or the
  data extracted, or an exception that \<open>insert_policy\<close> does not catch, the result has
  \<open>success = False\<close>, the message of the exception and the elapsed time. In each case
  no policy is in the result and the store is unchanged: every exception of the body
  is raised before a row is written. Every unsuccessful result carries a message and
  the elapsed time, and with it the store, so also the stored policy of that airline
  code, is unchanged.
\<close>

theorem scrape_failure_result:
  "(list_all (\<lambda>i. is_request_exception (net i)) [0..<max_retries] \<longrightarrow>
      fetch_page max_retries net = Inr None)
   \<and> (fetch_page max_retries net = Inr None
        \<or> fetch_page max_retries net = Inr (Some [])
      \<longrightarrow> scrape self max_retries net parse_error extract_data db_error start_time end_time t
          = (\<lparr> result_airline_name = scraper_airline_name self, success = False,
               policy = None, error_message = Some ''No se pudo obtener contenido HTML'',
               warnings = [], execution_time_seconds = end_time - start_time \<rparr>, t))
   \<and> (fetch_page max_retries net = Inl error_msg
        \<or> fetch_page max_retries net = Inr (Some html) \<and> html \<noteq> []
           \<and> parse_error html = Some error_msg
        \<or> fetch_page max_retries net = Inr (Some html) \<and> html \<noteq> []
           \<and> parse_error html = None \<and> extract_data html = Inl error_msg
        \<or> fetch_page max_retries net = Inr (Some html) \<and> html \<noteq> []
           \<and> parse_error html = None \<and> extract_data html = Inr extracted
           \<and> \<not> db_error
           \<and> bind_parameters
                ((apply_validation extracted)\<lparr>confidence_score :=
                   calculate_confidence_score (apply_validation extracted)\<rparr>) = Some error_msg
      \<longrightarrow> scrape self max_retries net parse_error extract_data db_error start_time end_time t
          = (\<lparr> result_airline_name = scraper_airline_name self, success = False,
               policy = None, error_message = Some error_msg,
               warnings = [], execution_time_seconds = end_time - start_time \<rparr>, t))
   \<and> (\<not> success (fst (scrape self max_retries net parse_error extract_data db_error
                          start_time end_time t))
      \<longrightarrow> error_message (fst (scrape self max_retries net parse_error extract_data db_error
                                start_time end_time t)) \<noteq> None
          \<and> policy (fst (scrape self max_retries net parse_error extract_data db_error
                            start_time end_time t)) = None
          \<and> execution_time_seconds
               (fst (scrape self max_retries net parse_error extract_data db_error
                       start_time end_time t)) = end_time - start_time
          \<and> snd (scrape self max_retries net parse_error extract_data db_error
                   start_time end_time t) = t
          \<and> get_policy_by_code False (scraper_airline_code self)
               (snd (scrape self max_retries net parse_error extract_data db_error
                      start_time end_time t))
             = get_policy_by_code False (scraper_airline_code self) t)"
proof -
  have p1: "list_all (\<lambda>i. is_request_exception (net i)) [0..<max_retries] \<longrightarrow>
      fetch_page max_retries net = Inr None"
    by (simp add: fetch_page_def fetch_attempts_exhausted)
  have p2: "fetch_page max_retries net = Inr None
        \<or> fetch_page max_retries net = Inr (Some [])
      \<longrightarrow> scrape self max_retries net parse_error extract_data db_error start_time end_time t
          = (\<lparr> result_airline_name = scraper_airline_name self, success = False,
               policy = None, error_message = Some ''No se pudo obtener contenido HTML'',
               warnings = [], execution_time_seconds = end_time - start_time \<rparr>, t)"
  proof
    assume "fetch_page max_retries net = Inr None
        \<or> fetch_page max_retries net = Inr (Some [])"
    then have "fst (scrape_try self max_retries net parse_error extract_data db_error
                      start_time end_time t) = Inl ''No se pudo obtener contenido HTML''"
      by (auto simp add: scrape_try_def)
    then show "scrape self max_retries net parse_error extract_data db_error start_time end_time t
          = (\<lparr> result_airline_name = scraper_airline_name self, success = False,
               policy = None, error_message = Some ''No se pudo obtener contenido HTML'',
               warnings = [], execution_time_seconds = end_time - start_time \<rparr>, t)"
      by (rule scrape_except)
  qed
  have p3: "fetch_page max_retries net = Inl error_msg
        \<or> fetch_page max_retries net = Inr (Some html) \<and> html \<noteq> []
           \<and> parse_error html = Some error_msg
        \<or> fetch_page max_retries net = Inr (Some html) \<and> html \<noteq> []
           \<and> parse_error html = None \<and> extract_data html = Inl error_msg
        \<or> fetch_page max_retries net = Inr (Some html) \<and> html \<noteq> []
           \<and> parse_error html = None \<and> extract_data html = Inr extracted
           \<and> \<not> db_error
           \<and> bind_parameters
                ((apply_validation extracted)\<lparr>confidence_score :=
                   calculate_confidence_score (apply_validation extracted)\<rparr>) = Some error_msg
      \<longrightarrow> scrape self max_retries net parse_error extract_data db_error start_time end_time t
          = (\<lparr> result_airline_name = scraper_airline_name self, success = False,
               policy = None, error_message = Some error_msg,
               warnings = [], execution_time_seconds = end_time - start_time \<rparr>, t)"
  proof
    assume "fetch_page max_retries net = Inl error_msg
        \<or> fetch_page max_retries net = Inr (Some html) \<and> html \<noteq> []
           \<and> parse_error html = Some error_msg
        \<or> fetch_page max_retries net = Inr (Some html) \<and> html \<noteq> []
           \<and> parse_error html = None \<and> extract_data html = Inl error_msg
        \<or> fetch_page max_retries net = Inr (Some html) \<and> html \<noteq> []
           \<and> parse_error html = None \<and> extract_data html = Inr extracted
           \<and> \<not> db_error
           \<and> bind_parameters
                ((apply_validation extracted)\<lparr>confidence_score :=
                   calculate_confidence_score (apply_validation extracted)\<rparr>) = Some error_msg"
    then have "fst (scrape_try self max_retries net parse_error extract_data db_error
                      start_time end_time t) = Inl error_msg"
      by (auto simp add: scrape_try_def insert_policy_call_def Let_def)
    then show "scrape self max_retries net parse_error extract_data db_error start_time end_time t
          = (\<lparr> result_airline_name = scraper_airline_name self, success = False,
               policy = None, error_message = Some error_msg,
               warnings = [], execution_time_seconds = end_time - start_time \<rparr>, t)"
      by (rule scrape_except)
  qed
  have p4: "\<not> success (fst (scrape self max_retries net parse_error extract_data db_error
                          start_time end_time t))
      \<longrightarrow> error_message (fst (scrape self max_retries net parse_error extract_data db_error
                                start_time end_time t)) \<noteq> None
          \<and> policy (fst (scrape self max_retries net parse_error extract_data db_error
                            start_time end_time t)) = None
          \<and> execution_time_seconds
               (fst (scrape self max_retries net parse_error extract_data db_error
                       start_time end_time t)) = end_time - start_time
          \<and> snd (scrape self max_retries net parse_error extract_data db_error
                   start_time end_time t) = t
          \<and> get_policy_by_code False (scraper_airline_code self)
               (snd (scrape self max_retries net parse_error extract_data db_error
                      start_time end_time t))
             = get_policy_by_code False (scraper_airline_code self) t"
  proof (cases "fst (scrape_try self max_retries net parse_error extract_data db_error
                  start_time end_time t)")
    case (Inl msg)
    then show ?thesis by (simp add: scrape_except)
  next
    case (Inr r)
    then have s: "success r" by (rule scrape_try_returns)
    obtain t' where "scrape_try self max_retries net parse_error extract_data db_error
            start_time end_time t = (Inr r, t')"
      using Inr by (metis prod.collapse)
    then have "fst (scrape self max_retries net parse_error extract_data db_error
                      start_time end_time t) = r"
      by (simp add: scrape_def)
    with s show ?thesis by simp
  qed
  from p1 p2 p3 p4 show ?thesis by blast
qed

theorem scrape_failure_result_witness:
  "list_all (\<lambda>i. is_request_exception (RequestException ''timeout'')) [0..<3]
   \<and> scrape avianca 3 (\<lambda>i. RequestException ''timeout'') (\<lambda>h. None) (\<lambda>h. Inl ''boom'')
        False 10 12 two_airlines
      = (\<lparr> result_airline_name = ''Avianca'', success = False, policy = None,
           error_message = Some ''No se pudo obtener contenido HTML'', warnings = [],
           execution_time_seconds = 2 \<rparr>, two_airlines)
   \<and> fetch_page 3 (\<lambda>i. if i = 0 then RequestException ''timeout'' else Response ''<html>'')
      = Inr (Some ''<html>'')
   \<and> scrape avianca 3 (\<lambda>i. if i = 0 then RequestException ''timeout'' else Response ''<html>'')
        (\<lambda>h. None) (\<lambda>h. Inl ''boom'') False 10 12 two_airlines
      = (\<lparr> result_airline_name = ''Avianca'', success = False, policy = None,
           error_message = Some ''boom'', warnings = [],
           execution_time_seconds = 2 \<rparr>, two_airlines)
   \<and> bind_parameters
        ((new_policy ''Avianca'' ''AV'' 3)\<lparr>cost_name_change_domestic_cop := Some (2 ^ 63)\<rparr>)
      = Some ''Python int too large to convert to SQLite INTEGER''
   \<and> scrape avianca 3 (\<lambda>i. Response ''<html>'') (\<lambda>h. None)
        (\<lambda>h. Inr ((new_policy ''Avianca'' ''AV'' 3)\<lparr>cost_name_change_domestic_cop :=
                      Some (2 ^ 63)\<rparr>))
        False 10 12 two_airlines
      = (\<lparr> result_airline_name = ''Avianca'', success = False, policy = None,
           error_message = Some ''Python int too large to convert to SQLite INTEGER'',
           warnings = [], execution_time_seconds = 2 \<rparr>, two_airlines)
   \<and> \<not> success (fst (scrape avianca 3 (\<lambda>i. RequestException ''timeout'') (\<lambda>h. None)
                        (\<lambda>h. Inl ''boom'') False 10 12 two_airlines))
   \<and> snd (scrape avianca 3 (\<lambda>i. RequestException ''timeout'') (\<lambda>h. None)
             (\<lambda>h. Inl ''boom'') False 10 12 two_airlines) = two_airlines"
proof -
  have a: "list_all (\<lambda>i. is_request_exception (RequestException ''timeout'')) [0..<3]"
    by (simp add: is_request_exception_def list_all_iff)
  have b: "fetch_page 3 (\<lambda>i. if i = 0 then RequestException ''timeout'' else Response ''<html>'')
      = Inr (Some ''<html>'')"
    by (simp add: fetch_page_def upt_rec)
  have b': "fetch_page 3 (\<lambda>i. Response ''<html>'') = Inr (Some ''<html>'')"
    by (simp add: fetch_page_def upt_rec)
  have c: "(12::real) - 10 = 2" by simp
  have d: "scraper_airline_name avianca = ''Avianca''" by (simp add: avianca_def)
  have e: "bind_parameters
        ((new_policy ''Avianca'' ''AV'' 3)\<lparr>cost_name_change_domestic_cop := Some (2 ^ 63)\<rparr>)
      = Some ''Python int too large to convert to SQLite INTEGER''"
    by (simp add: bind_parameters_def sqlite_integer_def new_policy_def)
  show ?thesis
    using scrape_failure_result [where net = "\<lambda>i. RequestException ''timeout''"
        and max_retries = 3 and self = avianca and parse_error = "\<lambda>h. None"
        and extract_data = "\<lambda>h. Inl ''boom''"
        and db_error = False and start_time = 10 and end_time = 12 and t = two_airlines]
      scrape_failure_result [where
        net = "\<lambda>i. if i = 0 then RequestException ''timeout'' else Response ''<html>''"
        and max_retries = 3 and self = avianca and parse_error = "\<lambda>h. None"
        and extract_data = "\<lambda>h. Inl ''boom''"
        and db_error = False and start_time = 10 and end_time = 12 and t = two_airlines
        and html = "''<html>''" and error_msg = "''boom''"]
      scrape_failure_result [where
        net = "\<lambda>i. Response ''<html>''"
        and max_retries = 3 and self = avianca and parse_error = "\<lambda>h. None"
        and extract_data = "\<lambda>h. Inr ((new_policy ''Avianca'' ''AV'' 3)\<lparr>cost_name_change_domestic_cop := Some (2 ^ 63)\<rparr>)"
        and db_error = False and start_time = 10 and end_time = 12 and t = two_airlines
        and html = "''<html>''"
        and extracted = "(new_policy ''Avianca'' ''AV'' 3)\<lparr>cost_name_change_domestic_cop := Some (2 ^ 63)\<rparr>"
        and error_msg = "''Python int too large to convert to SQLite INTEGER''"]
      a b b' c d e
    by (simp add: bind_parameters_reviewed)
qed

end
